theory Spec2Isabelle
  imports Main "HOL-Library.Char_ord" "HOL-Library.List_Lexorder"
begin

section \<open>The pastebin client: data model\<close>

text \<open>
  The constants of \<^verbatim>\<open>pastebin.go\<close>.
\<close>

definition LoginApiUrl :: string where
  "LoginApiUrl = ''https://pastebin.com/api/api_login.php''"

definition PostApiUrl :: string where
  "PostApiUrl = ''https://pastebin.com/api/api_post.php''"

definition RawApiUrl :: string where
  "RawApiUrl = ''https://pastebin.com/api/api_raw.php''"

definition ScrapingApiUrl :: string where
  "ScrapingApiUrl = ''https://scrape.pastebin.com/api_scraping.php''"

definition RawUrlPrefix :: string where
  "RawUrlPrefix = ''https://pastebin.com/raw''"

text \<open>
  Go errors are values. \<open>ErrNotAuthenticated\<close> is the package's own sentinel;
  \<open>ErrorNew\<close> is a value made by \<^verbatim>\<open>errors.New\<close> or \<^verbatim>\<open>fmt.Errorf\<close> at the place of the
  failure; \<open>LibError\<close> is an error handed back by the standard library (transport,
  body read, URL parsing, XML and JSON decoding), known by its message only.
\<close>

datatype error = ErrNotAuthenticated | ErrorNew string | LibError string

fun Error_msg :: "error \<Rightarrow> string" where
  "Error_msg ErrNotAuthenticated = ''must be authenticated to perform this action''"
| "Error_msg (ErrorNew s) = s"
| "Error_msg (LibError s) = s"

record Client =
  username :: string
  password :: string
  developerApiKey :: string
  sessionKey :: string

text \<open>
  \<^verbatim>\<open>url.Values\<close> is a map from a key to a list of values; every literal of the source
  has distinct keys, written here in the order of the source.
\<close>

type_synonym url_Values = "(string \<times> string list) list"

record http_Request =
  Method :: string
  URL :: string
  Header :: "(string \<times> string) list"
  ReqBody :: string

text \<open>
  A response carries its status code, its status text and what \<^verbatim>\<open>ioutil.ReadAll\<close>
  gives on its body: the bytes, or a read error.
\<close>

record http_Response =
  StatusCode :: int
  Status :: string
  Body :: "error + string"

text \<open>
  What the program does to the outside: the requests handed to the HTTP client, in
  order, and the lines printed on the standard output.
\<close>

record world =
  sent :: "http_Request list"
  stdout :: "string list"

text \<open>
  Modelled from the spec: the \<^verbatim>\<open>Paste\<close> type and the two wire records are declared
  outside \<^verbatim>\<open>pastebin.go\<close>. Section 3 of the specification lists the fields of a paste:
  key, title, owning username, content size, creation timestamp, expiration,
  visibility, syntax, view count, raw and full URLs. The XML list form carries all of
  them but the owner, which the conversion fills in from its argument; the JSON scrape
  form carries all of them.
\<close>

record Paste =
  PasteKey :: string
  PasteTitle :: string
  PasteUser :: string
  PasteSize :: int
  PasteDate :: int
  PasteExpireDate :: int
  PasteVisibility :: int
  PasteSyntax :: string
  PasteHits :: int
  PasteRawUrl :: string
  PasteUrl :: string

record xmlPaste =
  xmlKey :: string
  xmlTitle :: string
  xmlSize :: int
  xmlDate :: int
  xmlExpireDate :: int
  xmlPrivate :: int
  xmlFormat :: string
  xmlHits :: int
  xmlRawUrl :: string
  xmlUrl :: string

record jsonPaste =
  jsonKey :: string
  jsonTitle :: string
  jsonUser :: string
  jsonSize :: int
  jsonDate :: int
  jsonExpire :: int
  jsonVisibility :: int
  jsonSyntax :: string
  jsonHits :: int
  jsonScrapeUrl :: string
  jsonFullUrl :: string

text \<open>
  Modelled from the spec: \<^verbatim>\<open>xmlPaste.ToPaste(username)\<close> is declared outside
  \<^verbatim>\<open>pastebin.go\<close>. The specification says each record of the list is "converted into
  the common Paste shape using the caller's username", with the "username filled from
  the client's own username".
\<close>

definition xmlPaste_ToPaste :: "xmlPaste \<Rightarrow> string \<Rightarrow> Paste" where
  "xmlPaste_ToPaste p username' =
     \<lparr>PasteKey = xmlKey p, PasteTitle = xmlTitle p, PasteUser = username',
      PasteSize = xmlSize p, PasteDate = xmlDate p, PasteExpireDate = xmlExpireDate p,
      PasteVisibility = xmlPrivate p, PasteSyntax = xmlFormat p, PasteHits = xmlHits p,
      PasteRawUrl = xmlRawUrl p, PasteUrl = xmlUrl p\<rparr>"

text \<open>
  Modelled from the spec: \<^verbatim>\<open>jsonPaste.ToPaste()\<close> is declared outside \<^verbatim>\<open>pastebin.go\<close>;
  the scrape form converges "on one Paste shape".
\<close>

definition jsonPaste_ToPaste :: "jsonPaste \<Rightarrow> Paste" where
  "jsonPaste_ToPaste p =
     \<lparr>PasteKey = jsonKey p, PasteTitle = jsonTitle p, PasteUser = jsonUser p,
      PasteSize = jsonSize p, PasteDate = jsonDate p, PasteExpireDate = jsonExpire p,
      PasteVisibility = jsonVisibility p, PasteSyntax = jsonSyntax p, PasteHits = jsonHits p,
      PasteRawUrl = jsonScrapeUrl p, PasteUrl = jsonFullUrl p\<rparr>"

text \<open>
  \<^verbatim>\<open>CreatePasteRequest\<close> is declared outside \<^verbatim>\<open>pastebin.go\<close>; the source reads its fields
  \<^verbatim>\<open>Title\<close>, \<^verbatim>\<open>Code\<close>, \<^verbatim>\<open>Syntax\<close>, \<^verbatim>\<open>Expiration\<close> (converted with \<^verbatim>\<open>string(...)\<close>) and
  \<^verbatim>\<open>Visibility\<close> (printed with \<^verbatim>\<open>%d\<close>).
\<close>

record CreatePasteRequest =
  Title :: string
  Code :: string
  Syntax :: string
  Expiration :: string
  Visibility :: int

text \<open>
  Modelled from the spec: \<^verbatim>\<open>VisibilityPrivate\<close> is declared outside \<^verbatim>\<open>pastebin.go\<close>.
  Section 6 of the specification gives the numeric values 0 = public, 1 = unlisted,
  2 = private.
\<close>

definition VisibilityPrivate :: int where
  "VisibilityPrivate = 2"

text \<open>
  Everything the source uses and does not define:
  \<^item> \<open>NewRequest_err\<close>: the error of \<^verbatim>\<open>http.NewRequest\<close> for a method and a URL, if any;
  \<^item> \<open>RoundTrip\<close>: the client returned by \<^verbatim>\<open>getHttpClient()\<close> and the network behind
    it: the outcome of handing it a request, an error or a response, given the requests
    handed to it before;
  \<^item> \<open>xml_Unmarshal\<close>, \<open>json_Unmarshal\<close>: the decoders, on the wrapped document, giving
    the list of records of the \<^verbatim>\<open>Pastes\<close> field or an error;
  \<^item> \<open>ExpirationNever\<close>: the token of the constant of that name.
\<close>

record env =
  NewRequest_err :: "string \<Rightarrow> string \<Rightarrow> error option"
  RoundTrip :: "http_Request list \<Rightarrow> http_Request \<Rightarrow> error + http_Response"
  xml_Unmarshal :: "string \<Rightarrow> error + xmlPaste list"
  json_Unmarshal :: "string \<Rightarrow> error + jsonPaste list"
  ExpirationNever :: string

section \<open>Library functions\<close>

text \<open>\<^verbatim>\<open>strings.HasPrefix\<close> and \<^verbatim>\<open>strings.TrimPrefix\<close>, as the Go library writes them.\<close>

definition HasPrefix :: "string \<Rightarrow> string \<Rightarrow> bool" where
  "HasPrefix s pre = (length s \<ge> length pre \<and> take (length pre) s = pre)"

definition TrimPrefix :: "string \<Rightarrow> string \<Rightarrow> string" where
  "TrimPrefix s pre = (if HasPrefix s pre then drop (length pre) s else s)"

text \<open>\<^verbatim>\<open>fmt.Sprintf("%d", n)\<close>: the decimal digits of an integer.\<close>

definition digit_char :: "nat \<Rightarrow> char" where
  "digit_char d = char_of (48 + d)"

function nat_dec :: "nat \<Rightarrow> string" where
  "nat_dec n = (if n < 10 then [digit_char n] else nat_dec (n div 10) @ [digit_char (n mod 10)])"
  by pat_completeness auto
termination
  by (relation "measure (\<lambda>n. n)") auto

declare nat_dec.simps [simp del]

definition Sprintf_d :: "int \<Rightarrow> string" where
  "Sprintf_d i = (if i < 0 then CHR ''-'' # nat_dec (nat (- i)) else nat_dec (nat i))"

text \<open>
  \<^verbatim>\<open>url.QueryEscape\<close>: letters, digits and \<^verbatim>\<open>-_.~\<close> stay, a space becomes \<^verbatim>\<open>+\<close>, every
  other byte becomes \<^verbatim>\<open>%XX\<close> in upper-case hexadecimal.
\<close>

definition upperhex :: "nat \<Rightarrow> char" where
  "upperhex d = ''0123456789ABCDEF'' ! d"

definition shouldEscape :: "char \<Rightarrow> bool" where
  "shouldEscape c =
     (let n = (of_char c :: nat) in
      if (97 \<le> n \<and> n \<le> 122) \<or> (65 \<le> n \<and> n \<le> 90) \<or> (48 \<le> n \<and> n \<le> 57) then False
      else if c \<in> set ''-_.~'' then False
      else True)"

fun QueryEscape :: "string \<Rightarrow> string" where
  "QueryEscape [] = []"
| "QueryEscape (c # cs) =
     (if c = CHR '' '' then CHR ''+'' # QueryEscape cs
      else if shouldEscape c
        then CHR ''%'' # upperhex ((of_char c :: nat) div 16) # upperhex ((of_char c :: nat) mod 16)
               # QueryEscape cs
      else c # QueryEscape cs)"

text \<open>
  \<^verbatim>\<open>url.Values.Encode\<close>: the keys in sorted order, each value as \<^verbatim>\<open>key=value\<close> with both
  sides escaped, joined by \<^verbatim>\<open>&\<close>.
\<close>

definition Encode_append :: "string \<Rightarrow> string \<Rightarrow> string \<Rightarrow> string" where
  "Encode_append keyEscaped buf v =
     (if length buf > 0 then buf @ ''&'' else buf) @ keyEscaped @ ''='' @ QueryEscape v"

definition Values_Encode :: "url_Values \<Rightarrow> string" where
  "Values_Encode v =
     foldl (\<lambda>buf (k, vs). foldl (Encode_append (QueryEscape k)) buf vs) [] (sort_key fst v)"

text \<open>
  \<^verbatim>\<open>http.NewRequest\<close>, \<^verbatim>\<open>Header.Set\<close> (on a key that is already in canonical form),
  \<^verbatim>\<open>Client.Do\<close>, \<^verbatim>\<open>Client.Get\<close> and \<^verbatim>\<open>fmt.Println\<close>. The library writes \<^verbatim>\<open>Get\<close> as
  \<^verbatim>\<open>NewRequest("GET", url, nil)\<close> followed by \<^verbatim>\<open>Do\<close>: when the URL is refused, \<^verbatim>\<open>Get\<close> returns
  the error of \<^verbatim>\<open>NewRequest\<close> and no request exists. Every call of \<^verbatim>\<open>Do\<close> is recorded in
  the world with the request it was given.
\<close>

definition http_NewRequest :: "env \<Rightarrow> string \<Rightarrow> string \<Rightarrow> string \<Rightarrow> error + http_Request" where
  "http_NewRequest e method' url' body' =
     (case NewRequest_err e method' url' of
        Some err \<Rightarrow> Inl err
      | None \<Rightarrow> Inr \<lparr>Method = method', URL = url', Header = [], ReqBody = body'\<rparr>)"

definition Header_Set :: "http_Request \<Rightarrow> string \<Rightarrow> string \<Rightarrow> http_Request" where
  "Header_Set r k v = r\<lparr>Header := (k, v) # filter (\<lambda>kv. fst kv \<noteq> k) (Header r)\<rparr>"

definition client_Do :: "env \<Rightarrow> world \<Rightarrow> http_Request \<Rightarrow> (error + http_Response) \<times> world" where
  "client_Do e w r = (RoundTrip e (sent w) r, w\<lparr>sent := sent w @ [r]\<rparr>)"

definition client_Get :: "env \<Rightarrow> world \<Rightarrow> string \<Rightarrow> (error + http_Response) \<times> world" where
  "client_Get e w url' =
     (case http_NewRequest e ''GET'' url' [] of
        Inl err \<Rightarrow> (Inl err, w)
      | Inr r \<Rightarrow> client_Do e w r)"

definition Println :: "world \<Rightarrow> string \<Rightarrow> world" where
  "Println w s = w\<lparr>stdout := stdout w @ [s]\<rparr>"

section \<open>The client\<close>

definition InvalidSessionKey :: string where
  "InvalidSessionKey = ''Bad API request, invalid api_user_key''"

text \<open>
  \<^verbatim>\<open>login\<close> and \<^verbatim>\<open>doPastebinRequest\<close> call each other. The receiver \<^verbatim>\<open>c *Client\<close> is
  passed in and returned, as is the world.
\<close>

function login :: "env \<Rightarrow> Client \<Rightarrow> world \<Rightarrow> error option \<times> Client \<times> world"
  and doPastebinRequest ::
    "env \<Rightarrow> Client \<Rightarrow> world \<Rightarrow> string \<Rightarrow> url_Values \<Rightarrow> bool \<Rightarrow> (error + string) \<times> Client \<times> world"
where
  "login e c w =
     (case doPastebinRequest e c w LoginApiUrl
             [(''api_user_name'', [username c]),
              (''api_user_password'', [password c]),
              (''api_dev_key'', [developerApiKey c])] False of
        (Inl err, c', w') \<Rightarrow> (Some err, c', w')
      | (Inr responseBody, c', w') \<Rightarrow> (None, c'\<lparr>sessionKey := responseBody\<rparr>, w'))"
| "doPastebinRequest e c w apiUrl fields' reAuthenticateOnInvalidSessionKey =
     (case http_NewRequest e ''POST'' apiUrl (Values_Encode fields') of
        Inl err \<Rightarrow> (Inl err, c, w)
      | Inr request0 \<Rightarrow>
          (case client_Do e w
                  (Header_Set request0 ''Content-Type'' ''application/x-www-form-urlencoded'') of
             (Inl err, w1) \<Rightarrow> (Inl err, c, w1)
           | (Inr response, w1) \<Rightarrow>
               if StatusCode response \<noteq> 200 then (Inl (ErrorNew (Status response)), c, w1)
               else (case Body response of
                  Inl err \<Rightarrow> (Inl err, c, w1)
                | Inr body \<Rightarrow>
                    if reAuthenticateOnInvalidSessionKey \<and> body = InvalidSessionKey then
                      (case login e c (Println w1 ''re-authenticating due to invalid api_user_key'') of
                         (Some err, c', w2) \<Rightarrow>
                           (Inl (ErrorNew
                              (''failed to re-authenticate on invalid api_user_key response: ''
                                 @ Error_msg err)), c', w2)
                       | (None, c', w2) \<Rightarrow> doPastebinRequest e c' w2 apiUrl fields' False)
                    else if HasPrefix body ''Bad API request'' then (Inl (ErrorNew body), c, w1)
                    else (Inr body, c, w1))))"
  by pat_completeness auto
termination
  by (relation "measure (\<lambda>x. case x of
          Inl _ \<Rightarrow> 1
        | Inr (_, _, _, _, _, reAuth) \<Rightarrow> (if reAuth then 2 else 0))") auto

declare login.simps [simp del] doPastebinRequest.simps [simp del]

text \<open>
  \<^verbatim>\<open>NewClient\<close> returns the client and the error of \<^verbatim>\<open>login\<close>, if it logged in.
\<close>

definition NewClient ::
  "env \<Rightarrow> world \<Rightarrow> string \<Rightarrow> string \<Rightarrow> string \<Rightarrow> error option \<times> Client \<times> world" where
  "NewClient e w username' password' developerApiKey' =
     (let client = \<lparr>username = username', password = password',
                     developerApiKey = developerApiKey', sessionKey = []\<rparr>
      in if length username' > 0 then login e client w else (None, client, w))"

definition CreatePaste ::
  "env \<Rightarrow> Client \<Rightarrow> world \<Rightarrow> CreatePasteRequest \<Rightarrow> (error + string) \<times> Client \<times> world" where
  "CreatePaste e c w request =
     (if Visibility request = VisibilityPrivate \<and> length (sessionKey c) = 0
      then (Inl ErrNotAuthenticated, c, w)
      else
        let expirationField =
              (if length (Expiration request) > 0 then Expiration request else ExpirationNever e)
        in case doPastebinRequest e c w PostApiUrl
                  [(''api_option'', [''paste'']),
                   (''api_user_key'', [sessionKey c]),
                   (''api_dev_key'', [developerApiKey c]),
                   (''api_paste_name'', [Title request]),
                   (''api_paste_code'', [Code request]),
                   (''api_paste_format'', [Syntax request]),
                   (''api_paste_expire_date'', [expirationField]),
                   (''api_paste_private'', [Sprintf_d (Visibility request)])] True of
             (Inl err, c', w') \<Rightarrow> (Inl err, c', w')
           | (Inr responseBody, c', w') \<Rightarrow>
               (Inr (TrimPrefix responseBody ''https://pastebin.com/''), c', w'))"

definition DeletePaste :: "env \<Rightarrow> Client \<Rightarrow> world \<Rightarrow> string \<Rightarrow> error option \<times> Client \<times> world" where
  "DeletePaste e c w pasteKey =
     (if length (sessionKey c) = 0 then (Some ErrNotAuthenticated, c, w)
      else case doPastebinRequest e c w RawApiUrl
                  [(''api_option'', [''delete'']),
                   (''api_user_key'', [sessionKey c]),
                   (''api_dev_key'', [developerApiKey c]),
                   (''api_paste_key'', [pasteKey])] True of
             (Inl err, c', w') \<Rightarrow> (Some err, c', w')
           | (Inr _, c', w') \<Rightarrow> (None, c', w'))"

definition ListUserPastes :: "env \<Rightarrow> Client \<Rightarrow> world \<Rightarrow> (error + Paste list) \<times> Client \<times> world" where
  "ListUserPastes e c w =
     (if length (sessionKey c) = 0 then (Inl ErrNotAuthenticated, c, w)
      else case doPastebinRequest e c w PostApiUrl
                  [(''api_option'', [''list'']),
                   (''api_user_key'', [sessionKey c]),
                   (''api_dev_key'', [developerApiKey c]),
                   (''api_results_limit'', [''100''])] True of
             (Inl err, c', w') \<Rightarrow> (Inl err, c', w')
           | (Inr responseBody, c', w') \<Rightarrow>
               (case xml_Unmarshal e (''<pastes>'' @ responseBody @ ''</pastes>'') of
                  Inl err \<Rightarrow> (Inl err, c', w')
                | Inr xmlPastes \<Rightarrow>
                    (Inr (map (\<lambda>xmlPaste. xmlPaste_ToPaste xmlPaste (username c')) xmlPastes),
                     c', w')))"

definition GetRawUserPaste ::
  "env \<Rightarrow> Client \<Rightarrow> world \<Rightarrow> string \<Rightarrow> (error + string) \<times> Client \<times> world" where
  "GetRawUserPaste e c w pasteKey =
     (if length (sessionKey c) = 0 then (Inl ErrNotAuthenticated, c, w)
      else case doPastebinRequest e c w RawApiUrl
                  [(''api_option'', [''show_paste'']),
                   (''api_user_key'', [sessionKey c]),
                   (''api_dev_key'', [developerApiKey c]),
                   (''api_paste_key'', [pasteKey])] True of
             (Inl err, c', w') \<Rightarrow> (Inl err, c', w')
           | (Inr responseBody, c', w') \<Rightarrow> (Inr responseBody, c', w'))"

text \<open>
  \<^verbatim>\<open>GetRecentPastes\<close> decodes the wrapped body, converts every record, and returns the
  body: the list \<open>pastes\<close> it builds is not part of what it returns.
\<close>

definition GetRecentPastes :: "env \<Rightarrow> Client \<Rightarrow> world \<Rightarrow> (error + string) \<times> Client \<times> world" where
  "GetRecentPastes e c w =
     (if length (sessionKey c) = 0 then (Inl ErrNotAuthenticated, c, w)
      else case doPastebinRequest e c w ScrapingApiUrl
                  [(''api_option'', [''show_paste'']),
                   (''api_user_key'', [sessionKey c]),
                   (''api_dev_key'', [developerApiKey c])] True of
             (Inl err, c', w') \<Rightarrow> (Inl err, c', w')
           | (Inr responseBody, c', w') \<Rightarrow>
               (case json_Unmarshal e
                       ([CHR ''{'', CHR 0x22] @ ''pastes'' @ [CHR 0x22, CHR '':''] @ responseBody
                          @ ''}'') of
                  Inl err \<Rightarrow> (Inl err, c', w')
                | Inr jsonPastes \<Rightarrow>
                    (let pastes = map jsonPaste_ToPaste jsonPastes
                     in (Inr responseBody, c', w'))))"

section \<open>The standalone raw fetch\<close>

text \<open>\<^verbatim>\<open>GetRawPaste\<close> is a free function: it has no \<^verbatim>\<open>Client\<close>.\<close>

definition GetRawPaste :: "env \<Rightarrow> world \<Rightarrow> string \<Rightarrow> (error + string) \<times> world" where
  "GetRawPaste e w pasteKey =
     (case client_Get e w (RawUrlPrefix @ ''/'' @ pasteKey) of
        (Inl err, w') \<Rightarrow> (Inl err, w')
      | (Inr response, w') \<Rightarrow>
          (case Body response of
             Inl err \<Rightarrow> (Inl err, w')
           | Inr body \<Rightarrow>
               if StatusCode response \<noteq> 200 \<or> HasPrefix body ''Bad API request''
               then (Inl (ErrorNew body), w')
               else (Inr body, w')))"

section \<open>Requests as they reach the HTTP client\<close>

text \<open>
  The request \<^verbatim>\<open>doPastebinRequest\<close> builds from a URL and fields, the request of
  \<^verbatim>\<open>login\<close>, the request of \<^verbatim>\<open>GetRawPaste\<close>, and the notice printed before a
  re-authentication.
\<close>

definition postRequest :: "string \<Rightarrow> url_Values \<Rightarrow> http_Request" where
  "postRequest apiUrl fields' =
     \<lparr>Method = ''POST'', URL = apiUrl,
      Header = [(''Content-Type'', ''application/x-www-form-urlencoded'')],
      ReqBody = Values_Encode fields'\<rparr>"

definition loginRequest :: "Client \<Rightarrow> http_Request" where
  "loginRequest c = postRequest LoginApiUrl
     [(''api_user_name'', [username c]),
      (''api_user_password'', [password c]),
      (''api_dev_key'', [developerApiKey c])]"

definition rawRequest :: "string \<Rightarrow> http_Request" where
  "rawRequest pasteKey =
     \<lparr>Method = ''GET'', URL = RawUrlPrefix @ ''/'' @ pasteKey, Header = [], ReqBody = []\<rparr>"

definition reauthNotice :: string where
  "reauthNotice = ''re-authenticating due to invalid api_user_key''"

text \<open>The fields a client keeps from its construction on.\<close>

definition same_credentials :: "Client \<Rightarrow> Client \<Rightarrow> bool" where
  "same_credentials c c' =
     (username c' = username c \<and> password c' = password c
      \<and> developerApiKey c' = developerApiKey c)"

section \<open>Concrete environments\<close>

text \<open>
  A scripted network answers the n-th request with the n-th outcome of a list, and
  refuses the connection once the list is exhausted.
\<close>

definition scripted ::
  "(error + http_Response) list \<Rightarrow> http_Request list \<Rightarrow> http_Request \<Rightarrow> error + http_Response" where
  "scripted rs hist r =
     (if length hist < length rs then rs ! length hist else Inl (LibError ''connection refused''))"

definition reply :: "int \<Rightarrow> string \<Rightarrow> string \<Rightarrow> error + http_Response" where
  "reply code st b = Inr \<lparr>StatusCode = code, Status = st, Body = Inr b\<rparr>"

definition samplePaste :: "string \<Rightarrow> xmlPaste" where
  "samplePaste k =
     \<lparr>xmlKey = k, xmlTitle = ''notes'', xmlSize = 15, xmlDate = 1297953260, xmlExpireDate = 0,
      xmlPrivate = 0, xmlFormat = ''text'', xmlHits = 3,
      xmlRawUrl = ''https://pastebin.com/raw/'' @ k, xmlUrl = ''https://pastebin.com/'' @ k\<rparr>"

definition sampleXml :: string where
  "sampleXml = ''<paste><paste_key>0b42rwhf</paste_key></paste>''
                 @ ''<paste><paste_key>0C343n0d</paste_key></paste>''"

definition quoted :: "string \<Rightarrow> string" where
  "quoted s = CHR 0x22 # s @ [CHR 0x22]"

definition sampleJson :: string where
  "sampleJson = ''[{'' @ quoted ''key'' @ '':'' @ quoted ''0b42rwhf'' @ ''}]''"

definition sampleScrape :: jsonPaste where
  "sampleScrape =
     \<lparr>jsonKey = ''0b42rwhf'', jsonTitle = ''notes'', jsonUser = ''bob'', jsonSize = 15,
      jsonDate = 1297953260, jsonExpire = 0, jsonVisibility = 0, jsonSyntax = ''text'',
      jsonHits = 3,
      jsonScrapeUrl = ''https://scrape.pastebin.com/api_scrape_item.php?i=0b42rwhf'',
      jsonFullUrl = ''https://pastebin.com/0b42rwhf''\<rparr>"

text \<open>
  The test environment accepts every URL, answers from a script, decodes the two sample
  documents and nothing else, and has \<^verbatim>\<open>N\<close> for the token of \<^verbatim>\<open>ExpirationNever\<close>.
\<close>

definition testEnv :: "(error + http_Response) list \<Rightarrow> env" where
  "testEnv rs =
     \<lparr>NewRequest_err = (\<lambda>m u. None),
      RoundTrip = scripted rs,
      xml_Unmarshal = (\<lambda>doc. if doc = ''<pastes>'' @ sampleXml @ ''</pastes>''
                               then Inr [samplePaste ''0b42rwhf'', samplePaste ''0C343n0d'']
                               else Inl (LibError ''XML syntax error'')),
      json_Unmarshal = (\<lambda>doc. if doc = ''{'' @ quoted ''pastes'' @ '':'' @ sampleJson @ ''}''
                                then Inr [sampleScrape]
                                else Inl (LibError ''invalid character'')),
      ExpirationNever = ''N''\<rparr>"

text \<open>
  \<^verbatim>\<open>url.Parse\<close> refuses a URL that holds a control byte (below \<^verbatim>\<open>0x20\<close>, or \<^verbatim>\<open>0x7f\<close>). The
  strict environment is the test environment with that check.
\<close>

fun stringContainsCTLByte :: "string \<Rightarrow> bool" where
  "stringContainsCTLByte [] = False"
| "stringContainsCTLByte (b # s) =
     ((of_char b :: nat) < 32 \<or> (of_char b :: nat) = 127 \<or> stringContainsCTLByte s)"

definition lowerhex :: "nat \<Rightarrow> char" where
  "lowerhex d = ''0123456789abcdef'' ! d"

text \<open>
  \<^verbatim>\<open>strconv.Quote\<close> on ASCII bytes, as the verb \<^verbatim>\<open>%q\<close> of the error message of \<^verbatim>\<open>url.Parse\<close>
  applies it: the quote and the backslash are escaped, control bytes are written with
  their letter or as \<^verbatim>\<open>\x\<close> and two hexadecimal digits.
\<close>

definition quoteByte :: "char \<Rightarrow> string" where
  "quoteByte b =
     (let n = (of_char b :: nat) in
      if n = 34 then [CHR 0x5C, CHR 0x22]
      else if n = 92 then [CHR 0x5C, CHR 0x5C]
      else if n = 7 then [CHR 0x5C, CHR ''a'']
      else if n = 8 then [CHR 0x5C, CHR ''b'']
      else if n = 12 then [CHR 0x5C, CHR ''f'']
      else if n = 10 then [CHR 0x5C, CHR ''n'']
      else if n = 13 then [CHR 0x5C, CHR ''r'']
      else if n = 9 then [CHR 0x5C, CHR ''t'']
      else if n = 11 then [CHR 0x5C, CHR ''v'']
      else if n < 32 \<or> n = 127 then [CHR 0x5C, CHR ''x'', lowerhex (n div 16), lowerhex (n mod 16)]
      else [b])"

definition Quote :: "string \<Rightarrow> string" where
  "Quote s = CHR 0x22 # concat (map quoteByte s) @ [CHR 0x22]"

definition strictEnv :: "(error + http_Response) list \<Rightarrow> env" where
  "strictEnv rs =
     (testEnv rs)\<lparr>NewRequest_err :=
        (\<lambda>m u. if stringContainsCTLByte u
                then Some (LibError (''parse '' @ Quote u
                                       @ '': net/url: invalid control character in URL''))
                else None)\<rparr>"

definition refusedKey :: string where
  "refusedKey = [CHR ''a'', CHR 0x0A, CHR ''b'']"

definition refusedMessage :: string where
  "refusedMessage = ''parse '' @ [CHR 0x22] @ ''https://pastebin.com/raw/a'' @ [CHR 0x5C]
                      @ ''nb'' @ [CHR 0x22] @ '': net/url: invalid control character in URL''"

definition testClient :: "string \<Rightarrow> Client" where
  "testClient k =
     \<lparr>username = ''alice'', password = ''secret'', developerApiKey = ''devkey'', sessionKey = k\<rparr>"

definition emptyWorld :: world where
  "emptyWorld = \<lparr>sent = [], stdout = []\<rparr>"

definition deleteFields :: "string \<Rightarrow> string \<Rightarrow> url_Values" where
  "deleteFields k pasteKey =
     [(''api_option'', [''delete'']), (''api_user_key'', [k]),
      (''api_dev_key'', [''devkey'']), (''api_paste_key'', [pasteKey])]"

definition sampleRequest :: "string \<Rightarrow> CreatePasteRequest" where
  "sampleRequest expiration =
     \<lparr>Title = ''notes'', Code = ''hello world'', Syntax = ''text'', Expiration = expiration,
      Visibility = 1\<rparr>"

definition sampleFields :: "string \<Rightarrow> url_Values" where
  "sampleFields expiration =
     [(''api_option'', [''paste'']),
      (''api_user_key'', ['''']),
      (''api_dev_key'', [''devkey'']),
      (''api_paste_name'', [''notes'']),
      (''api_paste_code'', [''hello world'']),
      (''api_paste_format'', [''text'']),
      (''api_paste_expire_date'', [expiration]),
      (''api_paste_private'', [Sprintf_d 1])]"

section \<open>Unfolding the request pipeline\<close>

text \<open>
  With the flag off, \<^verbatim>\<open>doPastebinRequest\<close> makes no recursive call: it is one exchange and
  its classification.
\<close>

lemma doPastebinRequest_noretry:
  "doPastebinRequest e c w apiUrl f False =
     (case NewRequest_err e ''POST'' apiUrl of
        Some err \<Rightarrow> (Inl err, c, w)
      | None \<Rightarrow>
         (case RoundTrip e (sent w) (postRequest apiUrl f) of
            Inl err \<Rightarrow> (Inl err, c, w\<lparr>sent := sent w @ [postRequest apiUrl f]\<rparr>)
          | Inr response \<Rightarrow>
              if StatusCode response \<noteq> 200
              then (Inl (ErrorNew (Status response)), c, w\<lparr>sent := sent w @ [postRequest apiUrl f]\<rparr>)
              else (case Body response of
                 Inl err \<Rightarrow> (Inl err, c, w\<lparr>sent := sent w @ [postRequest apiUrl f]\<rparr>)
               | Inr body \<Rightarrow>
                   if HasPrefix body ''Bad API request''
                   then (Inl (ErrorNew body), c, w\<lparr>sent := sent w @ [postRequest apiUrl f]\<rparr>)
                   else (Inr body, c, w\<lparr>sent := sent w @ [postRequest apiUrl f]\<rparr>))))"
  by (simp add: doPastebinRequest.simps http_NewRequest_def client_Do_def Header_Set_def
        postRequest_def split: option.splits sum.splits)

text \<open>\<^verbatim>\<open>login\<close> is one exchange with the flag off, and stores the body on success.\<close>

lemma login_unfold:
  "login e c w =
     (case NewRequest_err e ''POST'' LoginApiUrl of
        Some err \<Rightarrow> (Some err, c, w)
      | None \<Rightarrow>
         (case RoundTrip e (sent w) (loginRequest c) of
            Inl err \<Rightarrow> (Some err, c, w\<lparr>sent := sent w @ [loginRequest c]\<rparr>)
          | Inr response \<Rightarrow>
              if StatusCode response \<noteq> 200
              then (Some (ErrorNew (Status response)), c, w\<lparr>sent := sent w @ [loginRequest c]\<rparr>)
              else (case Body response of
                 Inl err \<Rightarrow> (Some err, c, w\<lparr>sent := sent w @ [loginRequest c]\<rparr>)
               | Inr body \<Rightarrow>
                   if HasPrefix body ''Bad API request''
                   then (Some (ErrorNew body), c, w\<lparr>sent := sent w @ [loginRequest c]\<rparr>)
                   else (None, c\<lparr>sessionKey := body\<rparr>, w\<lparr>sent := sent w @ [loginRequest c]\<rparr>))))"
  by (simp add: login.simps doPastebinRequest_noretry loginRequest_def
        split: option.splits sum.splits)

lemma doPastebinRequest_retry:
  "doPastebinRequest e c w apiUrl f True =
     (case NewRequest_err e ''POST'' apiUrl of
        Some err \<Rightarrow> (Inl err, c, w)
      | None \<Rightarrow>
         (case RoundTrip e (sent w) (postRequest apiUrl f) of
            Inl err \<Rightarrow> (Inl err, c, w\<lparr>sent := sent w @ [postRequest apiUrl f]\<rparr>)
          | Inr response \<Rightarrow>
              if StatusCode response \<noteq> 200
              then (Inl (ErrorNew (Status response)), c, w\<lparr>sent := sent w @ [postRequest apiUrl f]\<rparr>)
              else (case Body response of
                 Inl err \<Rightarrow> (Inl err, c, w\<lparr>sent := sent w @ [postRequest apiUrl f]\<rparr>)
               | Inr body \<Rightarrow>
                   if body = InvalidSessionKey then
                     (case login e c (w\<lparr>sent := sent w @ [postRequest apiUrl f],
                                         stdout := stdout w @ [reauthNotice]\<rparr>) of
                        (Some err, c', w2) \<Rightarrow>
                          (Inl (ErrorNew
                             (''failed to re-authenticate on invalid api_user_key response: ''
                                @ Error_msg err)), c', w2)
                      | (None, c', w2) \<Rightarrow> doPastebinRequest e c' w2 apiUrl f False)
                   else if HasPrefix body ''Bad API request''
                   then (Inl (ErrorNew body), c, w\<lparr>sent := sent w @ [postRequest apiUrl f]\<rparr>)
                   else (Inr body, c, w\<lparr>sent := sent w @ [postRequest apiUrl f]\<rparr>))))"
  by (simp add: doPastebinRequest.simps [of e c w apiUrl f True] http_NewRequest_def client_Do_def Header_Set_def
        postRequest_def Println_def reauthNotice_def split: option.splits sum.splits)

lemma login_frame:
  assumes "login e c w = (r, c', w')"
  shows "stdout w' = stdout w"
    and "sent w' = sent w \<or> sent w' = sent w @ [loginRequest c]"
    and "r \<noteq> None \<Longrightarrow> c' = c"
    and "r = None \<Longrightarrow> \<exists>k. c' = c\<lparr>sessionKey := k\<rparr>"
  using assms
  by (auto simp: login_unfold split: option.splits sum.splits if_splits)

lemma noretry_frame:
  assumes "doPastebinRequest e c w apiUrl f False = (r, c', w')"
  shows "c' = c" and "stdout w' = stdout w"
    and "sent w' = sent w \<or> sent w' = sent w @ [postRequest apiUrl f]"
  using assms
  by (auto simp: doPastebinRequest_noretry split: option.splits sum.splits if_splits)

text \<open>
  A successful request, retried or not, ends with one exchange that answered 200 with the
  body returned; the client changes only through a successful \<^verbatim>\<open>login\<close>.
\<close>

lemma noretry_success:
  assumes "doPastebinRequest e c w apiUrl f False = (Inr body, c', w')"
  shows "c' = c" and "w' = w\<lparr>sent := sent w @ [postRequest apiUrl f]\<rparr>"
    and "\<exists>r. RoundTrip e (sent w) (postRequest apiUrl f) = Inr r \<and> StatusCode r = 200
             \<and> Body r = Inr body"
    and "\<not> HasPrefix body ''Bad API request''"
  using assms
  by (auto simp: doPastebinRequest_noretry split: option.splits sum.splits if_splits)

lemma retry_frame:
  assumes "doPastebinRequest e c w apiUrl f True = (r, c', w')"
  shows "c' = c \<or> (\<exists>w1 w2. login e c w1 = (None, c', w2))"
proof (cases "c' = c")
  case True
  then show ?thesis by simp
next
  case False
  let ?w1 = "w\<lparr>sent := sent w @ [postRequest apiUrl f], stdout := stdout w @ [reauthNotice]\<rparr>"
  obtain lr c1 w2 where l: "login e c ?w1 = (lr, c1, w2)"
    by (cases "login e c ?w1") auto
  from assms False l have call: "lr = None \<and> doPastebinRequest e c1 w2 apiUrl f False = (r, c', w')"
    using login_frame(3) [OF l]
    by (auto simp: doPastebinRequest_retry split: option.splits sum.splits if_splits)
  then have "c' = c1" using noretry_frame(1) by blast
  with l call show ?thesis by blast
qed

lemma relogin_same_credentials:
  assumes "c' = c \<or> (\<exists>w1 w2. login e c w1 = (None, c', w2))"
  shows "username c' = username c \<and> password c' = password c
       \<and> developerApiKey c' = developerApiKey c"
  using assms login_frame(4) by fastforce

lemma retry_success:
  assumes "doPastebinRequest e c w apiUrl f True = (Inr body, c', w')"
  shows "(c' = c \<and> w' = w\<lparr>sent := sent w @ [postRequest apiUrl f]\<rparr>
            \<and> (\<exists>r. RoundTrip e (sent w) (postRequest apiUrl f) = Inr r \<and> StatusCode r = 200
                   \<and> Body r = Inr body)
            \<and> \<not> HasPrefix body ''Bad API request'')
       \<or> (\<exists>c1 w2. doPastebinRequest e c1 w2 apiUrl f False = (Inr body, c', w'))"
proof -
  let ?w1 = "w\<lparr>sent := sent w @ [postRequest apiUrl f], stdout := stdout w @ [reauthNotice]\<rparr>"
  obtain lr c1 w2 where l: "login e c ?w1 = (lr, c1, w2)"
    by (cases "login e c ?w1") auto
  from assms l show ?thesis
    by (auto simp: doPastebinRequest_retry split: option.splits sum.splits if_splits)
qed

lemma request_success:
  assumes "doPastebinRequest e c w apiUrl f reAuth = (Inr body, c', w')"
  shows "sent w' \<noteq> [] \<and> last (sent w') = postRequest apiUrl f
       \<and> (\<exists>r. RoundTrip e (butlast (sent w')) (last (sent w')) = Inr r \<and> StatusCode r = 200
               \<and> Body r = Inr body)
       \<and> \<not> HasPrefix body ''Bad API request''"
proof -
  have once: "\<exists>c1 w2. doPastebinRequest e c1 w2 apiUrl f False = (Inr body, c', w')
       \<or> (w' = w2\<lparr>sent := sent w2 @ [postRequest apiUrl f]\<rparr>
            \<and> (\<exists>r. RoundTrip e (sent w2) (postRequest apiUrl f) = Inr r \<and> StatusCode r = 200
                   \<and> Body r = Inr body)
            \<and> \<not> HasPrefix body ''Bad API request'')"
  proof (cases reAuth)
    case False
    with assms have "doPastebinRequest e c w apiUrl f False = (Inr body, c', w')" by simp
    then show ?thesis by blast
  next
    case True
    with assms have "doPastebinRequest e c w apiUrl f True = (Inr body, c', w')" by simp
    from retry_success [OF this] show ?thesis by blast
  qed
  have "\<exists>w2. w' = w2\<lparr>sent := sent w2 @ [postRequest apiUrl f]\<rparr>
       \<and> (\<exists>r. RoundTrip e (sent w2) (postRequest apiUrl f) = Inr r \<and> StatusCode r = 200
              \<and> Body r = Inr body)
       \<and> \<not> HasPrefix body ''Bad API request''"
  proof -
    from once obtain c1 w2 where
      alt: "doPastebinRequest e c1 w2 apiUrl f False = (Inr body, c', w')
        \<or> (w' = w2\<lparr>sent := sent w2 @ [postRequest apiUrl f]\<rparr>
            \<and> (\<exists>r. RoundTrip e (sent w2) (postRequest apiUrl f) = Inr r \<and> StatusCode r = 200
                   \<and> Body r = Inr body)
            \<and> \<not> HasPrefix body ''Bad API request'')"
      by blast
    then show ?thesis
    proof
      assume a: "doPastebinRequest e c1 w2 apiUrl f False = (Inr body, c', w')"
      from noretry_success(2) [OF a] noretry_success(3) [OF a] noretry_success(4) [OF a]
      show ?thesis by blast
    next
      assume "w' = w2\<lparr>sent := sent w2 @ [postRequest apiUrl f]\<rparr>
            \<and> (\<exists>r. RoundTrip e (sent w2) (postRequest apiUrl f) = Inr r \<and> StatusCode r = 200
                   \<and> Body r = Inr body)
            \<and> \<not> HasPrefix body ''Bad API request''"
      then show ?thesis by blast
    qed
  qed
  then show ?thesis by auto
qed

text \<open>
  With the flag on, the requests of one call are the request itself, then possibly the
  login request, then possibly the request again.
\<close>

lemma retry_sent:
  assumes "NewRequest_err e ''POST'' apiUrl = None"
  shows "\<exists>rest. sent (snd (snd (doPastebinRequest e c w apiUrl f True)))
                  = sent w @ postRequest apiUrl f # rest
         \<and> (rest = [] \<or> rest = [loginRequest c]
              \<or> rest = [loginRequest c, postRequest apiUrl f])"
proof -
  let ?w1 = "w\<lparr>sent := sent w @ [postRequest apiUrl f], stdout := stdout w @ [reauthNotice]\<rparr>"
  obtain lr c1 w2 where l: "login e c ?w1 = (lr, c1, w2)"
    by (cases "login e c ?w1") auto
  obtain r c2 w3 where n: "doPastebinRequest e c1 w2 apiUrl f False = (r, c2, w3)"
    by (cases "doPastebinRequest e c1 w2 apiUrl f False") auto
  have s2: "sent w2 = sent ?w1 \<or> sent w2 = sent ?w1 @ [loginRequest c]"
    using login_frame(2) [OF l] .
  have s2': "lr = None \<Longrightarrow> sent w2 = sent ?w1 @ [loginRequest c]"
    using l by (auto simp: login_unfold split: option.splits sum.splits if_splits)
  have s3: "sent w3 = sent w2 @ [postRequest apiUrl f]"
    using n assms by (auto simp: doPastebinRequest_noretry split: sum.splits if_splits)
  show ?thesis
    using assms l n s2 s2' s3
    by (auto simp: doPastebinRequest_retry split: option.splits sum.splits)
qed

text \<open>Every operation leaves the client as it was, or as a successful login left it.\<close>

lemma after_request:
  assumes "doPastebinRequest e c w apiUrl f True = (r, c2, w2)" and "c' = c \<or> c' = c2"
  shows "same_credentials c c' \<and> (c' = c \<or> (\<exists>w1 w2. login e c w1 = (None, c', w2)))"
proof -
  from retry_frame [OF assms(1)] assms(2)
  have "c' = c \<or> (\<exists>w1 w2. login e c w1 = (None, c', w2))"
    by auto
  with relogin_same_credentials [of c' c e] show ?thesis
    by (simp add: same_credentials_def)
qed

lemma doPastebinRequest_client:
  "same_credentials c (fst (snd (doPastebinRequest e c w apiUrl f True)))
   \<and> (fst (snd (doPastebinRequest e c w apiUrl f True)) = c
      \<or> (\<exists>w1 w2. login e c w1 = (None, fst (snd (doPastebinRequest e c w apiUrl f True)), w2)))"
proof -
  obtain r c2 w2 where d: "doPastebinRequest e c w apiUrl f True = (r, c2, w2)"
    by (cases "doPastebinRequest e c w apiUrl f True") auto
  from after_request [OF d, of c2] d show ?thesis by simp
qed

lemma CreatePaste_client:
  "same_credentials c (fst (snd (CreatePaste e c w request)))
   \<and> (fst (snd (CreatePaste e c w request)) = c
      \<or> (\<exists>w1 w2. login e c w1 = (None, fst (snd (CreatePaste e c w request)), w2)))"
proof -
  let ?f = "[(''api_option'', [''paste'']),
             (''api_user_key'', [sessionKey c]),
             (''api_dev_key'', [developerApiKey c]),
             (''api_paste_name'', [Title request]),
             (''api_paste_code'', [Code request]),
             (''api_paste_format'', [Syntax request]),
             (''api_paste_expire_date'',
                [if length (Expiration request) > 0 then Expiration request
                 else ExpirationNever e]),
             (''api_paste_private'', [Sprintf_d (Visibility request)])]"
  obtain r c2 w2 where d: "doPastebinRequest e c w PostApiUrl ?f True = (r, c2, w2)"
    by (cases "doPastebinRequest e c w PostApiUrl ?f True") auto
  have "fst (snd (CreatePaste e c w request)) = c \<or> fst (snd (CreatePaste e c w request)) = c2"
    using d by (auto simp: CreatePaste_def Let_def split: sum.splits)
  from after_request [OF d this] show ?thesis .
qed

lemma DeletePaste_client:
  "same_credentials c (fst (snd (DeletePaste e c w pasteKey)))
   \<and> (fst (snd (DeletePaste e c w pasteKey)) = c
      \<or> (\<exists>w1 w2. login e c w1 = (None, fst (snd (DeletePaste e c w pasteKey)), w2)))"
proof -
  let ?f = "[(''api_option'', [''delete'']),
             (''api_user_key'', [sessionKey c]),
             (''api_dev_key'', [developerApiKey c]),
             (''api_paste_key'', [pasteKey])]"
  obtain r c2 w2 where d: "doPastebinRequest e c w RawApiUrl ?f True = (r, c2, w2)"
    by (cases "doPastebinRequest e c w RawApiUrl ?f True") auto
  have "fst (snd (DeletePaste e c w pasteKey)) = c \<or> fst (snd (DeletePaste e c w pasteKey)) = c2"
    using d by (auto simp: DeletePaste_def split: sum.splits)
  from after_request [OF d this] show ?thesis .
qed

lemma ListUserPastes_client:
  "same_credentials c (fst (snd (ListUserPastes e c w)))
   \<and> (fst (snd (ListUserPastes e c w)) = c
      \<or> (\<exists>w1 w2. login e c w1 = (None, fst (snd (ListUserPastes e c w)), w2)))"
proof -
  let ?f = "[(''api_option'', [''list'']),
             (''api_user_key'', [sessionKey c]),
             (''api_dev_key'', [developerApiKey c]),
             (''api_results_limit'', [''100''])]"
  obtain r c2 w2 where d: "doPastebinRequest e c w PostApiUrl ?f True = (r, c2, w2)"
    by (cases "doPastebinRequest e c w PostApiUrl ?f True") auto
  have "fst (snd (ListUserPastes e c w)) = c \<or> fst (snd (ListUserPastes e c w)) = c2"
    using d by (auto simp: ListUserPastes_def split: sum.splits)
  from after_request [OF d this] show ?thesis .
qed

lemma GetRawUserPaste_client:
  "same_credentials c (fst (snd (GetRawUserPaste e c w pasteKey)))
   \<and> (fst (snd (GetRawUserPaste e c w pasteKey)) = c
      \<or> (\<exists>w1 w2. login e c w1 = (None, fst (snd (GetRawUserPaste e c w pasteKey)), w2)))"
proof -
  let ?f = "[(''api_option'', [''show_paste'']),
             (''api_user_key'', [sessionKey c]),
             (''api_dev_key'', [developerApiKey c]),
             (''api_paste_key'', [pasteKey])]"
  obtain r c2 w2 where d: "doPastebinRequest e c w RawApiUrl ?f True = (r, c2, w2)"
    by (cases "doPastebinRequest e c w RawApiUrl ?f True") auto
  have "fst (snd (GetRawUserPaste e c w pasteKey)) = c
      \<or> fst (snd (GetRawUserPaste e c w pasteKey)) = c2"
    using d by (auto simp: GetRawUserPaste_def split: sum.splits)
  from after_request [OF d this] show ?thesis .
qed

lemma GetRecentPastes_client:
  "same_credentials c (fst (snd (GetRecentPastes e c w)))
   \<and> (fst (snd (GetRecentPastes e c w)) = c
      \<or> (\<exists>w1 w2. login e c w1 = (None, fst (snd (GetRecentPastes e c w)), w2)))"
proof -
  let ?f = "[(''api_option'', [''show_paste'']),
             (''api_user_key'', [sessionKey c]),
             (''api_dev_key'', [developerApiKey c])]"
  obtain r c2 w2 where d: "doPastebinRequest e c w ScrapingApiUrl ?f True = (r, c2, w2)"
    by (cases "doPastebinRequest e c w ScrapingApiUrl ?f True") auto
  have "fst (snd (GetRecentPastes e c w)) = c \<or> fst (snd (GetRecentPastes e c w)) = c2"
    using d by (auto simp: GetRecentPastes_def Let_def split: sum.splits)
  from after_request [OF d this] show ?thesis .
qed

text \<open>The sample requests, encoded and sent.\<close>

lemma deleteFields_body:
  "Values_Encode (deleteFields ''stale'' ''abc123'')
     = ''api_dev_key=devkey&api_option=delete&api_paste_key=abc123&api_user_key=stale''"
  unfolding deleteFields_def by code_simp

lemma sampleFields_body:
  "Values_Encode (sampleFields ''N'')
     = ''api_dev_key=devkey&api_option=paste&api_paste_code=hello+world&api_paste_expire_date=N''
       @ ''&api_paste_format=text&api_paste_name=notes&api_paste_private=1&api_user_key=''"
  unfolding sampleFields_def by code_simp

lemma sample_CreatePaste:
  "CreatePaste (testEnv [reply 200 ''200 OK'' ''https://pastebin.com/abc123''])
       (testClient []) emptyWorld (sampleRequest x)
     = (Inr ''abc123'', testClient [],
        \<lparr>sent = [postRequest PostApiUrl (sampleFields (if x = [] then ''N'' else x))],
          stdout = []\<rparr>)"
  by (simp add: CreatePaste_def doPastebinRequest_retry testEnv_def scripted_def reply_def
        emptyWorld_def testClient_def sampleRequest_def sampleFields_def VisibilityPrivate_def
        InvalidSessionKey_def HasPrefix_def TrimPrefix_def)

text \<open>What \<^verbatim>\<open>strings.TrimPrefix\<close> does, said without \<^verbatim>\<open>strings.HasPrefix\<close>.\<close>

lemma HasPrefix_iff: "HasPrefix s pre \<longleftrightarrow> (\<exists>k. s = pre @ k)"
proof
  assume "HasPrefix s pre"
  then have "take (length pre) s = pre"
    by (simp add: HasPrefix_def)
  then have "pre @ drop (length pre) s = s"
    using append_take_drop_id [of "length pre" s] by simp
  then have "s = pre @ drop (length pre) s"
    by simp
  then show "\<exists>k. s = pre @ k" ..
next
  assume "\<exists>k. s = pre @ k"
  then obtain k where "s = pre @ k" ..
  then show "HasPrefix s pre"
    by (simp add: HasPrefix_def)
qed

lemma TrimPrefix_present: "s = pre @ k \<Longrightarrow> TrimPrefix s pre = k"
  by (simp add: TrimPrefix_def HasPrefix_def)

lemma TrimPrefix_absent: "\<forall>k. s \<noteq> pre @ k \<Longrightarrow> TrimPrefix s pre = s"
  by (simp add: TrimPrefix_def HasPrefix_iff)

lemma TrimPrefix_stripped:
  assumes "key = TrimPrefix body pre"
  shows "(\<forall>k. body = pre @ k \<longrightarrow> key = k) \<and> ((\<forall>k. body \<noteq> pre @ k) \<longrightarrow> key = body)"
  using assms TrimPrefix_present [of body pre] TrimPrefix_absent [of body pre] by simp

text \<open>The strict environment on the two sample keys.\<close>

lemma strictEnv_accepts:
  "NewRequest_err (strictEnv rs) ''GET'' (RawUrlPrefix @ ''/'' @ ''abc123'') = None"
  by (simp add: strictEnv_def RawUrlPrefix_def)

lemma strictEnv_refuses:
  "NewRequest_err (strictEnv rs) ''GET'' (RawUrlPrefix @ ''/'' @ refusedKey)
     = Some (LibError refusedMessage)"
  by (simp add: strictEnv_def RawUrlPrefix_def refusedKey_def
        refusedMessage_def Quote_def quoteByte_def)

section \<open>Operations that need a session\<close>

text \<open>
  Claim C3. On a client whose session key is empty, \<^verbatim>\<open>DeletePaste\<close>, \<^verbatim>\<open>ListUserPastes\<close>,
  \<^verbatim>\<open>GetRawUserPaste\<close> and \<^verbatim>\<open>GetRecentPastes\<close> return \<^verbatim>\<open>ErrNotAuthenticated\<close> and leave the
  client and the world as they were: no request is handed to the HTTP client. So does
  \<^verbatim>\<open>CreatePaste\<close> when the visibility is private.
\<close>

theorem session_required_no_request:
  assumes "sessionKey c = []"
  shows "DeletePaste e c w pasteKey = (Some ErrNotAuthenticated, c, w)
       \<and> ListUserPastes e c w = (Inl ErrNotAuthenticated, c, w)
       \<and> GetRawUserPaste e c w pasteKey = (Inl ErrNotAuthenticated, c, w)
       \<and> GetRecentPastes e c w = (Inl ErrNotAuthenticated, c, w)
       \<and> (Visibility request = VisibilityPrivate \<longrightarrow>
            CreatePaste e c w request = (Inl ErrNotAuthenticated, c, w))"
  using assms
  by (simp add: DeletePaste_def ListUserPastes_def GetRawUserPaste_def GetRecentPastes_def
        CreatePaste_def)

theorem session_required_no_request_witness:
  "sessionKey (testClient []) = []
   \<and> DeletePaste (testEnv []) (testClient []) emptyWorld ''abc123''
       = (Some ErrNotAuthenticated, testClient [], emptyWorld)
   \<and> ListUserPastes (testEnv []) (testClient []) emptyWorld
       = (Inl ErrNotAuthenticated, testClient [], emptyWorld)
   \<and> GetRawUserPaste (testEnv []) (testClient []) emptyWorld ''abc123''
       = (Inl ErrNotAuthenticated, testClient [], emptyWorld)
   \<and> GetRecentPastes (testEnv []) (testClient []) emptyWorld
       = (Inl ErrNotAuthenticated, testClient [], emptyWorld)
   \<and> CreatePaste (testEnv []) (testClient []) emptyWorld
         \<lparr>Title = ''t'', Code = ''x'', Syntax = ''text'', Expiration = [], Visibility = 2\<rparr>
       = (Inl ErrNotAuthenticated, testClient [], emptyWorld)
   \<and> sent emptyWorld = []"
proof -
  have k: "sessionKey (testClient []) = []"
    by (simp add: testClient_def)
  show ?thesis
    using k session_required_no_request [OF k, of "testEnv []" emptyWorld "''abc123''"
        "\<lparr>Title = ''t'', Code = ''x'', Syntax = ''text'', Expiration = [], Visibility = 2\<rparr>"]
    by (simp add: VisibilityPrivate_def emptyWorld_def)
qed

section \<open>Errors of the API\<close>

text \<open>
  Claim C5. When the exchange answers 200 with a body that starts with
  \<^verbatim>\<open>Bad API request\<close>, and the retry branch does not take it (the flag is off, or the body
  is not the invalid-session string), \<^verbatim>\<open>doPastebinRequest\<close> returns an error whose
  message is the body, verbatim.
\<close>

theorem api_error_verbatim:
  assumes "NewRequest_err e ''POST'' apiUrl = None"
      and "RoundTrip e (sent w) (postRequest apiUrl f)
             = Inr \<lparr>StatusCode = 200, Status = st, Body = Inr body\<rparr>"
      and "HasPrefix body ''Bad API request''"
      and "\<not> (reAuth \<and> body = InvalidSessionKey)"
  shows "doPastebinRequest e c w apiUrl f reAuth
           = (Inl (ErrorNew body), c, w\<lparr>sent := sent w @ [postRequest apiUrl f]\<rparr>)
       \<and> Error_msg (ErrorNew body) = body"
proof (cases reAuth)
  case True
  with assms show ?thesis by (simp add: doPastebinRequest_retry)
next
  case False
  with assms show ?thesis by (simp add: doPastebinRequest_noretry)
qed

theorem api_error_verbatim_witness:
  "doPastebinRequest (testEnv [reply 200 ''200 OK'' ''Bad API request, whatever''])
       (testClient ''stale'') emptyWorld RawApiUrl [(''api_option'', [''delete''])] True
     = (Inl (ErrorNew ''Bad API request, whatever''), testClient ''stale'',
        emptyWorld\<lparr>sent := [postRequest RawApiUrl [(''api_option'', [''delete''])]]\<rparr>)
   \<and> HasPrefix ''Bad API request, whatever'' ''Bad API request''
   \<and> ''Bad API request, whatever'' \<noteq> InvalidSessionKey"
proof -
  let ?e = "testEnv [reply 200 ''200 OK'' ''Bad API request, whatever'']"
  have h1: "NewRequest_err ?e ''POST'' RawApiUrl = None"
    by (simp add: testEnv_def)
  have h2: "RoundTrip ?e (sent emptyWorld) (postRequest RawApiUrl [(''api_option'', [''delete''])])
             = Inr \<lparr>StatusCode = 200, Status = ''200 OK'', Body = Inr ''Bad API request, whatever''\<rparr>"
    by (simp add: testEnv_def scripted_def reply_def emptyWorld_def)
  have h3: "HasPrefix ''Bad API request, whatever'' ''Bad API request''"
    by (simp add: HasPrefix_def)
  have h4: "\<not> (True \<and> ''Bad API request, whatever'' = InvalidSessionKey)"
    by (simp add: InvalidSessionKey_def)
  show ?thesis
    using api_error_verbatim [OF h1 h2 h3 h4, of "testClient ''stale''"] h3 h4
    by (simp add: emptyWorld_def)
qed

section \<open>The automatic re-authentication\<close>

text \<open>
  Claim C1, as amended. When the exchange answers 200 with exactly the invalid-session
  string and the flag is on, the notice is printed once and \<^verbatim>\<open>login\<close> is called once, on
  the world that holds the first request; its request is the next one sent. When that
  login fails, the call returns the re-authentication error, with no retry. When it
  succeeds, the call is the same request again with the flag off, which sends exactly one
  request more and leaves the client alone; if that answers 200 with the invalid-session
  string again, the result is an error carrying that string.
\<close>

theorem reauth_once:
  assumes "NewRequest_err e ''POST'' apiUrl = None"
      and "NewRequest_err e ''POST'' LoginApiUrl = None"
      and "RoundTrip e (sent w) (postRequest apiUrl f)
             = Inr \<lparr>StatusCode = 200, Status = st, Body = Inr InvalidSessionKey\<rparr>"
      and "w1 = w\<lparr>sent := sent w @ [postRequest apiUrl f], stdout := stdout w @ [reauthNotice]\<rparr>"
      and "login e c w1 = (lr, c1, w2)"
  shows "w2 = w1\<lparr>sent := sent w1 @ [loginRequest c]\<rparr>
       \<and> (\<forall>err. lr = Some err \<longrightarrow>
             doPastebinRequest e c w apiUrl f True
               = (Inl (ErrorNew (''failed to re-authenticate on invalid api_user_key response: ''
                                   @ Error_msg err)), c, w2))
       \<and> (lr = None \<longrightarrow>
             doPastebinRequest e c w apiUrl f True = doPastebinRequest e c1 w2 apiUrl f False
             \<and> snd (doPastebinRequest e c1 w2 apiUrl f False)
                 = (c1, w2\<lparr>sent := sent w2 @ [postRequest apiUrl f]\<rparr>)
             \<and> (\<forall>st'. RoundTrip e (sent w2) (postRequest apiUrl f)
                         = Inr \<lparr>StatusCode = 200, Status = st', Body = Inr InvalidSessionKey\<rparr> \<longrightarrow>
                   fst (doPastebinRequest e c w apiUrl f True) = Inl (ErrorNew InvalidSessionKey)))"
proof -
  have w2: "w2 = w1\<lparr>sent := sent w1 @ [loginRequest c]\<rparr>"
    using assms(2,5) by (auto simp: login_unfold split: sum.splits if_splits)
  have c1: "lr \<noteq> None \<Longrightarrow> c1 = c"
    using login_frame(3) [OF assms(5)] .
  have call: "doPastebinRequest e c w apiUrl f True =
     (case lr of
        Some err \<Rightarrow> (Inl (ErrorNew (''failed to re-authenticate on invalid api_user_key response: ''
                                   @ Error_msg err)), c1, w2)
      | None \<Rightarrow> doPastebinRequest e c1 w2 apiUrl f False)"
    using assms by (simp add: doPastebinRequest_retry split: option.splits)
  have one: "snd (doPastebinRequest e c1 w2 apiUrl f False)
                 = (c1, w2\<lparr>sent := sent w2 @ [postRequest apiUrl f]\<rparr>)"
    using assms(1) by (simp add: doPastebinRequest_noretry split: sum.splits)
  have again: "fst (doPastebinRequest e c1 w2 apiUrl f False) = Inl (ErrorNew InvalidSessionKey)"
    if "RoundTrip e (sent w2) (postRequest apiUrl f)
          = Inr \<lparr>StatusCode = 200, Status = st', Body = Inr InvalidSessionKey\<rparr>" for st'
    using assms(1) that
    by (simp add: doPastebinRequest_noretry HasPrefix_def InvalidSessionKey_def)
  show ?thesis
    using w2 c1 call one again by (auto split: option.splits)
qed

theorem reauth_once_witness:
  "doPastebinRequest (testEnv [reply 200 ''200 OK'' InvalidSessionKey,
                                reply 200 ''200 OK'' ''fresh'',
                                reply 200 ''200 OK'' InvalidSessionKey])
       (testClient ''stale'') emptyWorld RawApiUrl (deleteFields ''stale'' ''abc123'') True
     = (Inl (ErrorNew InvalidSessionKey),
        testClient ''fresh'',
        \<lparr>sent = [postRequest RawApiUrl (deleteFields ''stale'' ''abc123''),
                 loginRequest (testClient ''stale''),
                 postRequest RawApiUrl (deleteFields ''stale'' ''abc123'')],
          stdout = [reauthNotice]\<rparr>)"
proof -
  let ?e = "testEnv [reply 200 ''200 OK'' InvalidSessionKey, reply 200 ''200 OK'' ''fresh'',
                     reply 200 ''200 OK'' InvalidSessionKey]"
  let ?R = "postRequest RawApiUrl (deleteFields ''stale'' ''abc123'')"
  let ?w1 = "emptyWorld\<lparr>sent := sent emptyWorld @ [?R], stdout := stdout emptyWorld @ [reauthNotice]\<rparr>"
  let ?w2 = "?w1\<lparr>sent := sent ?w1 @ [loginRequest (testClient ''stale'')]\<rparr>"
  have h1: "NewRequest_err ?e ''POST'' RawApiUrl = None"
    by (simp add: testEnv_def)
  have h2: "NewRequest_err ?e ''POST'' LoginApiUrl = None"
    by (simp add: testEnv_def)
  have h3: "RoundTrip ?e (sent emptyWorld) ?R
              = Inr \<lparr>StatusCode = 200, Status = ''200 OK'', Body = Inr InvalidSessionKey\<rparr>"
    by (simp add: testEnv_def scripted_def reply_def emptyWorld_def)
  have h5: "login ?e (testClient ''stale'') ?w1 = (None, testClient ''fresh'', ?w2)"
    by (simp add: login_unfold testEnv_def scripted_def reply_def emptyWorld_def HasPrefix_def
          testClient_def)
  have h6: "RoundTrip ?e (sent ?w2) ?R
              = Inr \<lparr>StatusCode = 200, Status = ''200 OK'', Body = Inr InvalidSessionKey\<rparr>"
    by (simp add: testEnv_def scripted_def reply_def emptyWorld_def)
  from reauth_once [OF h1 h2 h3 refl h5] h6
  have "fst (doPastebinRequest ?e (testClient ''stale'') emptyWorld RawApiUrl
               (deleteFields ''stale'' ''abc123'') True) = Inl (ErrorNew InvalidSessionKey)
      \<and> snd (doPastebinRequest ?e (testClient ''stale'') emptyWorld RawApiUrl
               (deleteFields ''stale'' ''abc123'') True)
          = (testClient ''fresh'', ?w2\<lparr>sent := sent ?w2 @ [?R]\<rparr>)"
    by auto
  then show ?thesis
    by (simp add: emptyWorld_def prod_eq_iff)
qed

text \<open>
  The claim as first stated promises the retry on every invalid-session response. Here
  the login that follows it is answered with status 500: two requests are sent, the
  second the login, and the request is not retried.
\<close>

theorem reauth_retry_counterexample:
  "RoundTrip (testEnv [reply 200 ''200 OK'' InvalidSessionKey,
                        reply 500 ''500 Internal Server Error'' []])
       (sent emptyWorld) (postRequest RawApiUrl (deleteFields ''stale'' ''abc123''))
     = Inr \<lparr>StatusCode = 200, Status = ''200 OK'', Body = Inr InvalidSessionKey\<rparr>
   \<and> doPastebinRequest (testEnv [reply 200 ''200 OK'' InvalidSessionKey,
                                   reply 500 ''500 Internal Server Error'' []])
       (testClient ''stale'') emptyWorld RawApiUrl (deleteFields ''stale'' ''abc123'') True
     = (Inl (ErrorNew (''failed to re-authenticate on invalid api_user_key response: ''
                         @ ''500 Internal Server Error'')),
        testClient ''stale'',
        \<lparr>sent = [postRequest RawApiUrl (deleteFields ''stale'' ''abc123''),
                 loginRequest (testClient ''stale'')],
          stdout = [reauthNotice]\<rparr>)"
  by (simp add: doPastebinRequest_retry login_unfold testEnv_def scripted_def reply_def
        emptyWorld_def)

text \<open>
  Claim C2. After a successful re-login the retried request is the original request: the
  same URL, the same fields, encoded as before. The client now holds the fresh session
  key; the request still holds whatever the caller put into its fields.
\<close>

theorem retry_reuses_fields:
  assumes "NewRequest_err e ''POST'' apiUrl = None"
      and "NewRequest_err e ''POST'' LoginApiUrl = None"
      and "RoundTrip e (sent w) (postRequest apiUrl f)
             = Inr \<lparr>StatusCode = 200, Status = st, Body = Inr InvalidSessionKey\<rparr>"
      and "RoundTrip e (sent w @ [postRequest apiUrl f]) (loginRequest c)
             = Inr \<lparr>StatusCode = 200, Status = st', Body = Inr fresh\<rparr>"
      and "\<not> HasPrefix fresh ''Bad API request''"
  shows "snd (doPastebinRequest e c w apiUrl f True)
           = (c\<lparr>sessionKey := fresh\<rparr>,
              w\<lparr>sent := sent w @ [postRequest apiUrl f, loginRequest c, postRequest apiUrl f],
                stdout := stdout w @ [reauthNotice]\<rparr>)"
  using assms
  by (simp add: doPastebinRequest_retry login_unfold doPastebinRequest_noretry
        split: sum.splits)

theorem retry_reuses_fields_witness:
  "snd (DeletePaste (testEnv [reply 200 ''200 OK'' InvalidSessionKey,
                               reply 200 ''200 OK'' ''fresh'',
                               reply 200 ''200 OK'' ''Paste Removed''])
          (testClient ''stale'') emptyWorld ''abc123'')
     = (testClient ''fresh'',
        \<lparr>sent = [postRequest RawApiUrl (deleteFields ''stale'' ''abc123''),
                 loginRequest (testClient ''stale''),
                 postRequest RawApiUrl (deleteFields ''stale'' ''abc123'')],
          stdout = [reauthNotice]\<rparr>)
   \<and> ReqBody (postRequest RawApiUrl (deleteFields ''stale'' ''abc123''))
     = ''api_dev_key=devkey&api_option=delete&api_paste_key=abc123&api_user_key=stale''"
proof -
  let ?e = "testEnv [reply 200 ''200 OK'' InvalidSessionKey, reply 200 ''200 OK'' ''fresh'',
                     reply 200 ''200 OK'' ''Paste Removed'']"
  let ?c = "testClient ''stale''"
  let ?R = "postRequest RawApiUrl (deleteFields ''stale'' ''abc123'')"
  have h1: "NewRequest_err ?e ''POST'' RawApiUrl = None"
    by (simp add: testEnv_def)
  have h2: "NewRequest_err ?e ''POST'' LoginApiUrl = None"
    by (simp add: testEnv_def)
  have h3: "RoundTrip ?e (sent emptyWorld) ?R
              = Inr \<lparr>StatusCode = 200, Status = ''200 OK'', Body = Inr InvalidSessionKey\<rparr>"
    by (simp add: testEnv_def scripted_def reply_def emptyWorld_def)
  have h4: "RoundTrip ?e (sent emptyWorld @ [?R]) (loginRequest ?c)
              = Inr \<lparr>StatusCode = 200, Status = ''200 OK'', Body = Inr ''fresh''\<rparr>"
    by (simp add: testEnv_def scripted_def reply_def emptyWorld_def)
  have h5: "\<not> HasPrefix ''fresh'' ''Bad API request''"
    by (simp add: HasPrefix_def)
  have d: "snd (DeletePaste ?e ?c emptyWorld ''abc123'')
             = snd (doPastebinRequest ?e ?c emptyWorld RawApiUrl
                      (deleteFields ''stale'' ''abc123'') True)"
    by (simp add: DeletePaste_def testClient_def deleteFields_def split: prod.splits sum.splits)
  show ?thesis
    using retry_reuses_fields [OF h1 h2 h3 h4 h5] d deleteFields_body
    by (simp add: testClient_def emptyWorld_def postRequest_def)
qed

section \<open>The standalone raw fetch, verified\<close>

text \<open>
  Claim C9, as amended. \<^verbatim>\<open>GetRawPaste\<close> takes no client. For every key whose raw URL
  \<^verbatim>\<open>http.Client.Get\<close> accepts, it hands one GET for that URL to the HTTP client, with no
  header and no body, and nothing else; when a response comes back, the result is an
  error if its status is not 200, and when its body is read, the result is an error
  carrying the body if the status is not 200 or the body starts with \<^verbatim>\<open>Bad API request\<close>,
  and the body itself otherwise. For a key whose raw URL is refused, it returns the error
  of the refusal and sends nothing.
\<close>

theorem GetRawPaste_result:
  "(NewRequest_err e ''GET'' (RawUrlPrefix @ ''/'' @ pasteKey) = None \<longrightarrow>
      snd (GetRawPaste e w pasteKey) = w\<lparr>sent := sent w @ [rawRequest pasteKey]\<rparr>
      \<and> (\<forall>r. RoundTrip e (sent w) (rawRequest pasteKey) = Inr r \<longrightarrow>
            (StatusCode r \<noteq> 200 \<longrightarrow> isl (fst (GetRawPaste e w pasteKey)))
            \<and> (\<forall>body. Body r = Inr body \<longrightarrow>
                  fst (GetRawPaste e w pasteKey)
                    = (if StatusCode r \<noteq> 200 \<or> HasPrefix body ''Bad API request''
                       then Inl (ErrorNew body) else Inr body))))
   \<and> (\<forall>err. NewRequest_err e ''GET'' (RawUrlPrefix @ ''/'' @ pasteKey) = Some err \<longrightarrow>
         GetRawPaste e w pasteKey = (Inl err, w))"
  by (simp add: GetRawPaste_def client_Get_def http_NewRequest_def client_Do_def rawRequest_def
        split: sum.splits)

theorem GetRawPaste_result_witness:
  "GetRawPaste (strictEnv [reply 200 ''200 OK'' ''hello world'']) emptyWorld ''abc123''
     = (Inr ''hello world'',
        \<lparr>sent = [\<lparr>Method = ''GET'', URL = ''https://pastebin.com/raw/abc123'', Header = [],
                   ReqBody = []\<rparr>], stdout = []\<rparr>)
   \<and> GetRawPaste (strictEnv [reply 404 ''404 Not Found'' ''Not Found'']) emptyWorld ''abc123''
     = (Inl (ErrorNew ''Not Found''),
        \<lparr>sent = [\<lparr>Method = ''GET'', URL = ''https://pastebin.com/raw/abc123'', Header = [],
                   ReqBody = []\<rparr>], stdout = []\<rparr>)
   \<and> GetRawPaste (strictEnv [reply 200 ''200 OK'' ''Bad API request, invalid api_option''])
         emptyWorld ''abc123''
     = (Inl (ErrorNew ''Bad API request, invalid api_option''),
        \<lparr>sent = [\<lparr>Method = ''GET'', URL = ''https://pastebin.com/raw/abc123'', Header = [],
                   ReqBody = []\<rparr>], stdout = []\<rparr>)
   \<and> GetRawPaste (strictEnv [reply 200 ''200 OK'' ''hello world'']) emptyWorld refusedKey
     = (Inl (LibError refusedMessage), emptyWorld)"
proof -
  have r: "RoundTrip (strictEnv [reply code st b]) (sent emptyWorld) (rawRequest ''abc123'')
             = Inr \<lparr>StatusCode = code, Status = st, Body = Inr b\<rparr>" for code st b
    by (simp add: strictEnv_def testEnv_def scripted_def reply_def emptyWorld_def)
  show ?thesis
    using strictEnv_accepts strictEnv_refuses
      r [of 200 "''200 OK''" "''hello world''"]
      r [of 404 "''404 Not Found''" "''Not Found''"]
      r [of 200 "''200 OK''" "''Bad API request, invalid api_option''"]
      GetRawPaste_result [of "strictEnv [reply 200 ''200 OK'' ''hello world'']" "''abc123''"
        emptyWorld]
      GetRawPaste_result [of "strictEnv [reply 404 ''404 Not Found'' ''Not Found'']" "''abc123''"
        emptyWorld]
      GetRawPaste_result [of "strictEnv [reply 200 ''200 OK'' ''Bad API request, invalid api_option'']"
        "''abc123''" emptyWorld]
      GetRawPaste_result [of "strictEnv [reply 200 ''200 OK'' ''hello world'']" refusedKey
        emptyWorld]
    by (simp add: HasPrefix_def emptyWorld_def rawRequest_def RawUrlPrefix_def prod_eq_iff)
qed

text \<open>
  The claim as first stated has a GET for every key. The key below holds a newline:
  \<^verbatim>\<open>url.Parse\<close> refuses its URL, \<^verbatim>\<open>Get\<close> returns that error, and no request is sent.
\<close>

theorem GetRawPaste_refused_counterexample:
  "GetRawPaste (strictEnv [reply 200 ''200 OK'' ''hello world'']) \<lparr>sent = [], stdout = []\<rparr>
       [CHR ''a'', CHR 0x0A, CHR ''b'']
     = (Inl (LibError
          (''parse '' @ [CHR 0x22] @ ''https://pastebin.com/raw/a'' @ [CHR 0x5C] @ ''nb''
             @ [CHR 0x22] @ '': net/url: invalid control character in URL'')),
        \<lparr>sent = [], stdout = []\<rparr>)"
  using strictEnv_refuses [of "[reply 200 ''200 OK'' ''hello world'']"]
  by (simp add: GetRawPaste_def client_Get_def http_NewRequest_def refusedKey_def
        refusedMessage_def RawUrlPrefix_def)


section \<open>What an operation may change in the client\<close>

text \<open>
  Claim C10. No operation changes the user name, the password or the developer key.
  \<^verbatim>\<open>login\<close> changes the session key, and only when it succeeds. \<^verbatim>\<open>doPastebinRequest\<close>
  with the flag off changes nothing. With the flag on, and in every exported method, the
  client afterwards is the client before or the client a successful \<^verbatim>\<open>login\<close> made of it.
  \<^verbatim>\<open>NewClient\<close> builds the client from its arguments with an empty session key, and
  calls \<^verbatim>\<open>login\<close> exactly when the user name is not empty.
\<close>

theorem credentials_frame:
  "same_credentials c (fst (snd (login e c w)))
   \<and> (fst (login e c w) \<noteq> None \<longrightarrow> fst (snd (login e c w)) = c)
   \<and> (fst (login e c w) = None \<longrightarrow> (\<exists>k. fst (snd (login e c w)) = c\<lparr>sessionKey := k\<rparr>))
   \<and> fst (snd (doPastebinRequest e c w apiUrl f False)) = c
   \<and> (\<forall>c' \<in> {fst (snd (doPastebinRequest e c w apiUrl f True)),
               fst (snd (CreatePaste e c w request)),
               fst (snd (DeletePaste e c w pasteKey)),
               fst (snd (ListUserPastes e c w)),
               fst (snd (GetRawUserPaste e c w pasteKey)),
               fst (snd (GetRecentPastes e c w))}.
         same_credentials c c' \<and> (c' = c \<or> (\<exists>w1 w2. login e c w1 = (None, c', w2))))
   \<and> (username' = [] \<longrightarrow>
         NewClient e w username' password' developerApiKey'
           = (None, \<lparr>username = username', password = password',
                     developerApiKey = developerApiKey', sessionKey = []\<rparr>, w))
   \<and> (username' \<noteq> [] \<longrightarrow>
         NewClient e w username' password' developerApiKey'
           = login e \<lparr>username = username', password = password',
                      developerApiKey = developerApiKey', sessionKey = []\<rparr> w)"
proof -
  obtain r c1 w1 where l: "login e c w = (r, c1, w1)"
    by (cases "login e c w") auto
  have a: "same_credentials c (fst (snd (login e c w)))
     \<and> (fst (login e c w) \<noteq> None \<longrightarrow> fst (snd (login e c w)) = c)
     \<and> (fst (login e c w) = None \<longrightarrow> (\<exists>k. fst (snd (login e c w)) = c\<lparr>sessionKey := k\<rparr>))"
    using login_frame(3) [OF l] login_frame(4) [OF l] l
    by (cases r) (auto simp: same_credentials_def)
  obtain r2 c2 w2 where n: "doPastebinRequest e c w apiUrl f False = (r2, c2, w2)"
    by (cases "doPastebinRequest e c w apiUrl f False") auto
  have b: "fst (snd (doPastebinRequest e c w apiUrl f False)) = c"
    using noretry_frame(1) [OF n] n by simp
  have d: "\<forall>c' \<in> {fst (snd (doPastebinRequest e c w apiUrl f True)),
               fst (snd (CreatePaste e c w request)),
               fst (snd (DeletePaste e c w pasteKey)),
               fst (snd (ListUserPastes e c w)),
               fst (snd (GetRawUserPaste e c w pasteKey)),
               fst (snd (GetRecentPastes e c w))}.
         same_credentials c c' \<and> (c' = c \<or> (\<exists>w1 w2. login e c w1 = (None, c', w2)))"
    using doPastebinRequest_client [of c e w apiUrl f]
      CreatePaste_client [of c e w request] DeletePaste_client [of c e w pasteKey]
      ListUserPastes_client [of c e w] GetRawUserPaste_client [of c e w pasteKey]
      GetRecentPastes_client [of c e w]
    by simp
  have n: "(username' = [] \<longrightarrow>
         NewClient e w username' password' developerApiKey'
           = (None, \<lparr>username = username', password = password',
                     developerApiKey = developerApiKey', sessionKey = []\<rparr>, w))
   \<and> (username' \<noteq> [] \<longrightarrow>
         NewClient e w username' password' developerApiKey'
           = login e \<lparr>username = username', password = password',
                      developerApiKey = developerApiKey', sessionKey = []\<rparr> w)"
    by (simp add: NewClient_def)
  from a b d n show ?thesis by blast
qed

theorem credentials_frame_witness:
  "same_credentials (testClient ''stale'')
      (fst (snd (DeletePaste (testEnv [reply 200 ''200 OK'' InvalidSessionKey,
                                        reply 200 ''200 OK'' ''fresh'',
                                        reply 200 ''200 OK'' ''Paste Removed''])
                   (testClient ''stale'') emptyWorld ''abc123'')))
   \<and> NewClient (testEnv []) emptyWorld [] ''secret'' ''devkey''
       = (None, \<lparr>username = [], password = ''secret'', developerApiKey = ''devkey'',
                  sessionKey = []\<rparr>, emptyWorld)
   \<and> NewClient (testEnv [reply 200 ''200 OK'' ''fresh'']) emptyWorld ''alice'' ''secret'' ''devkey''
       = (None, testClient ''fresh'', \<lparr>sent = [loginRequest (testClient [])], stdout = []\<rparr>)"
proof -
  have l: "login (testEnv [reply 200 ''200 OK'' ''fresh'']) (testClient []) emptyWorld
       = (None, testClient ''fresh'', \<lparr>sent = [loginRequest (testClient [])], stdout = []\<rparr>)"
    by (simp add: login_unfold testEnv_def scripted_def reply_def emptyWorld_def HasPrefix_def
          testClient_def)
  from credentials_frame [where c = "testClient ''stale''"
      and e = "testEnv [reply 200 ''200 OK'' InvalidSessionKey, reply 200 ''200 OK'' ''fresh'',
                reply 200 ''200 OK'' ''Paste Removed'']"
      and w = emptyWorld and pasteKey = "''abc123''"]
  have a: "same_credentials (testClient ''stale'')
      (fst (snd (DeletePaste (testEnv [reply 200 ''200 OK'' InvalidSessionKey,
                                        reply 200 ''200 OK'' ''fresh'',
                                        reply 200 ''200 OK'' ''Paste Removed''])
                   (testClient ''stale'') emptyWorld ''abc123'')))"
    by simp
  show ?thesis
    using a l
      credentials_frame [where e = "testEnv [reply 200 ''200 OK'' ''fresh'']" and w = emptyWorld
        and username' = "''alice''" and password' = "''secret''"
        and developerApiKey' = "''devkey''"]
      credentials_frame [where e = "testEnv []" and w = emptyWorld
        and username' = "[]" and password' = "''secret''" and developerApiKey' = "''devkey''"]
    by (simp add: testClient_def)
qed

section \<open>Creating a paste\<close>

text \<open>
  Claim C7. Whenever \<^verbatim>\<open>CreatePaste\<close> returns a key, the last request it sent went to the
  post URL and was answered 200 with a body, and the key is that body with the prefix
  \<^verbatim>\<open>https://pastebin.com/\<close> stripped: when the body is the prefix followed by some text, the
  key is that text, and when the body does not start with the prefix, the key is the
  body. For the body \<^verbatim>\<open>https://pastebin.com/abc123\<close> the key is \<^verbatim>\<open>abc123\<close>.
\<close>

theorem CreatePaste_key:
  assumes "CreatePaste e c w request = (Inr key, c', w')"
  shows "sent w' \<noteq> [] \<and> URL (last (sent w')) = PostApiUrl
       \<and> (\<exists>r body. RoundTrip e (butlast (sent w')) (last (sent w')) = Inr r
              \<and> StatusCode r = 200 \<and> Body r = Inr body
              \<and> key = TrimPrefix body ''https://pastebin.com/''
              \<and> (body = ''https://pastebin.com/abc123'' \<longrightarrow> key = ''abc123'')
              \<and> (\<forall>k. body = ''https://pastebin.com/'' @ k \<longrightarrow> key = k)
              \<and> ((\<forall>k. body \<noteq> ''https://pastebin.com/'' @ k) \<longrightarrow> key = body))"
proof -
  let ?f = "[(''api_option'', [''paste'']),
             (''api_user_key'', [sessionKey c]),
             (''api_dev_key'', [developerApiKey c]),
             (''api_paste_name'', [Title request]),
             (''api_paste_code'', [Code request]),
             (''api_paste_format'', [Syntax request]),
             (''api_paste_expire_date'',
                [if length (Expiration request) > 0 then Expiration request
                 else ExpirationNever e]),
             (''api_paste_private'', [Sprintf_d (Visibility request)])]"
  from assms obtain body where
    d: "doPastebinRequest e c w PostApiUrl ?f True = (Inr body, c', w')"
    and k: "key = TrimPrefix body ''https://pastebin.com/''"
    by (auto simp: CreatePaste_def Let_def split: if_splits prod.splits sum.splits)
  note rs = request_success [OF d]
  from rs have s: "sent w' \<noteq> []"
    by (rule conjunct1)
  from rs have u: "URL (last (sent w')) = PostApiUrl"
    by (simp add: postRequest_def)
  from rs [THEN conjunct2, THEN conjunct2, THEN conjunct1] obtain r where
    r: "RoundTrip e (butlast (sent w')) (last (sent w')) = Inr r \<and> StatusCode r = 200
          \<and> Body r = Inr body" ..
  note st = TrimPrefix_stripped [OF k]
  have t: "body = ''https://pastebin.com/abc123'' \<longrightarrow> key = ''abc123''"
    using st by simp
  have "RoundTrip e (butlast (sent w')) (last (sent w')) = Inr r
              \<and> StatusCode r = 200 \<and> Body r = Inr body
              \<and> key = TrimPrefix body ''https://pastebin.com/''
              \<and> (body = ''https://pastebin.com/abc123'' \<longrightarrow> key = ''abc123'')
              \<and> (\<forall>k. body = ''https://pastebin.com/'' @ k \<longrightarrow> key = k)
              \<and> ((\<forall>k. body \<noteq> ''https://pastebin.com/'' @ k) \<longrightarrow> key = body)"
    by (intro conjI)
       (fact r [THEN conjunct1] r [THEN conjunct2, THEN conjunct1]
          r [THEN conjunct2, THEN conjunct2] k t st [THEN conjunct1] st [THEN conjunct2])+
  then have "\<exists>r body. RoundTrip e (butlast (sent w')) (last (sent w')) = Inr r
              \<and> StatusCode r = 200 \<and> Body r = Inr body
              \<and> key = TrimPrefix body ''https://pastebin.com/''
              \<and> (body = ''https://pastebin.com/abc123'' \<longrightarrow> key = ''abc123'')
              \<and> (\<forall>k. body = ''https://pastebin.com/'' @ k \<longrightarrow> key = k)
              \<and> ((\<forall>k. body \<noteq> ''https://pastebin.com/'' @ k) \<longrightarrow> key = body)"
    by (intro exI)
  with s u show ?thesis
    by (intro conjI)
qed

theorem CreatePaste_key_witness:
  "CreatePaste (testEnv [reply 200 ''200 OK'' ''https://pastebin.com/abc123''])
       (testClient []) emptyWorld (sampleRequest [])
     = (Inr ''abc123'', testClient [],
        \<lparr>sent = [postRequest PostApiUrl (sampleFields ''N'')], stdout = []\<rparr>)
   \<and> RoundTrip (testEnv [reply 200 ''200 OK'' ''https://pastebin.com/abc123'']) []
        (postRequest PostApiUrl (sampleFields ''N''))
     = Inr \<lparr>StatusCode = 200, Status = ''200 OK'', Body = Inr ''https://pastebin.com/abc123''\<rparr>
   \<and> TrimPrefix ''https://pastebin.com/abc123'' ''https://pastebin.com/'' = ''abc123''"
proof -
  let ?W = "\<lparr>sent = [postRequest PostApiUrl (sampleFields ''N'')], stdout = []\<rparr>"
  have ev: "CreatePaste (testEnv [reply 200 ''200 OK'' ''https://pastebin.com/abc123''])
       (testClient []) emptyWorld (sampleRequest []) = (Inr ''abc123'', testClient [], ?W)"
    using sample_CreatePaste [of "[]"] by simp
  have rt: "RoundTrip (testEnv [reply 200 ''200 OK'' ''https://pastebin.com/abc123'']) []
        (postRequest PostApiUrl (sampleFields ''N''))
     = Inr \<lparr>StatusCode = 200, Status = ''200 OK'', Body = Inr ''https://pastebin.com/abc123''\<rparr>"
    by (simp add: testEnv_def scripted_def reply_def)
  have bl: "butlast (sent ?W) = []" "last (sent ?W) = postRequest PostApiUrl (sampleFields ''N'')"
    by simp_all
  from CreatePaste_key [OF ev, THEN conjunct2, THEN conjunct2] obtain r body where
    x: "RoundTrip (testEnv [reply 200 ''200 OK'' ''https://pastebin.com/abc123''])
          (butlast (sent ?W)) (last (sent ?W)) = Inr r
        \<and> StatusCode r = 200 \<and> Body r = Inr body
        \<and> ''abc123'' = TrimPrefix body ''https://pastebin.com/''"
    by (elim exE conjE) (intro that conjI)
  from x [THEN conjunct1]
  have rr: "r = \<lparr>StatusCode = 200, Status = ''200 OK'',
                  Body = Inr ''https://pastebin.com/abc123''\<rparr>"
    unfolding bl rt by simp
  from x [THEN conjunct2, THEN conjunct2, THEN conjunct1]
  have bb: "body = ''https://pastebin.com/abc123''"
    unfolding rr by simp
  from x [THEN conjunct2, THEN conjunct2, THEN conjunct2]
  have "TrimPrefix ''https://pastebin.com/abc123'' ''https://pastebin.com/'' = ''abc123''"
    unfolding bb by (rule sym)
  with ev rt show ?thesis
    by (intro conjI)
qed

text \<open>
  Claim C8. When \<^verbatim>\<open>CreatePaste\<close> passes its guard, the first request it sends carries
  \<^verbatim>\<open>ExpirationNever\<close> in \<^verbatim>\<open>api_paste_expire_date\<close> if the expiration of the request is
  empty, and the expiration unchanged otherwise; the only other requests of the call are
  the login of a re-authentication and the same request once more.
\<close>

theorem CreatePaste_expiration:
  assumes "\<not> (Visibility request = VisibilityPrivate \<and> length (sessionKey c) = 0)"
      and "NewRequest_err e ''POST'' PostApiUrl = None"
      and "P = postRequest PostApiUrl
                 [(''api_option'', [''paste'']),
                  (''api_user_key'', [sessionKey c]),
                  (''api_dev_key'', [developerApiKey c]),
                  (''api_paste_name'', [Title request]),
                  (''api_paste_code'', [Code request]),
                  (''api_paste_format'', [Syntax request]),
                  (''api_paste_expire_date'',
                     [if Expiration request = [] then ExpirationNever e else Expiration request]),
                  (''api_paste_private'', [Sprintf_d (Visibility request)])]"
  shows "\<exists>rest. sent (snd (snd (CreatePaste e c w request))) = sent w @ P # rest
           \<and> (rest = [] \<or> rest = [loginRequest c] \<or> rest = [loginRequest c, P])"
proof -
  let ?f = "[(''api_option'', [''paste'']),
             (''api_user_key'', [sessionKey c]),
             (''api_dev_key'', [developerApiKey c]),
             (''api_paste_name'', [Title request]),
             (''api_paste_code'', [Code request]),
             (''api_paste_format'', [Syntax request]),
             (''api_paste_expire_date'',
                [if Expiration request = [] then ExpirationNever e else Expiration request]),
             (''api_paste_private'', [Sprintf_d (Visibility request)])]"
  have "snd (snd (CreatePaste e c w request))
          = snd (snd (doPastebinRequest e c w PostApiUrl ?f True))"
    using assms(1)
    by (cases "Expiration request = []")
       (auto simp: CreatePaste_def Let_def split: prod.splits sum.splits)
  with retry_sent [OF assms(2), of c w ?f] assms(3) show ?thesis
    by simp
qed

theorem CreatePaste_expiration_witness:
  "sent (snd (snd (CreatePaste (testEnv [reply 200 ''200 OK'' ''https://pastebin.com/abc123''])
                     (testClient []) emptyWorld (sampleRequest []))))
     = [postRequest PostApiUrl (sampleFields ''N'')]
   \<and> sent (snd (snd (CreatePaste (testEnv [reply 200 ''200 OK'' ''https://pastebin.com/abc123''])
                     (testClient []) emptyWorld (sampleRequest ''10M''))))
     = [postRequest PostApiUrl (sampleFields ''10M'')]
   \<and> ReqBody (postRequest PostApiUrl (sampleFields ''N''))
     = ''api_dev_key=devkey&api_option=paste&api_paste_code=hello+world&api_paste_expire_date=N''
       @ ''&api_paste_format=text&api_paste_name=notes&api_paste_private=1&api_user_key=''"
proof -
  let ?e = "testEnv [reply 200 ''200 OK'' ''https://pastebin.com/abc123'']"
  have g: "\<not> (Visibility (sampleRequest x) = VisibilityPrivate
              \<and> length (sessionKey (testClient [])) = 0)" for x
    by (simp add: sampleRequest_def VisibilityPrivate_def)
  have n: "NewRequest_err ?e ''POST'' PostApiUrl = None"
    by (simp add: testEnv_def)
  have t: "ExpirationNever ?e = ''N''"
    by (simp add: testEnv_def)
  have w: "sent emptyWorld = []"
    by (simp add: emptyWorld_def)
  have f: "postRequest PostApiUrl
             [(''api_option'', [''paste'']),
              (''api_user_key'', [sessionKey (testClient [])]),
              (''api_dev_key'', [developerApiKey (testClient [])]),
              (''api_paste_name'', [Title (sampleRequest x)]),
              (''api_paste_code'', [Code (sampleRequest x)]),
              (''api_paste_format'', [Syntax (sampleRequest x)]),
              (''api_paste_expire_date'', [y]),
              (''api_paste_private'', [Sprintf_d (Visibility (sampleRequest x))])]
           = postRequest PostApiUrl (sampleFields y)" for x y
    by (simp add: sampleRequest_def sampleFields_def testClient_def)
  have x: "Expiration (sampleRequest x) = x" for x
    by (simp add: sampleRequest_def)
  from CreatePaste_expiration [OF g [of "[]"] n refl, where w = emptyWorld]
  have a: "\<exists>rest. sent (snd (snd (CreatePaste ?e (testClient []) emptyWorld (sampleRequest []))))
             = postRequest PostApiUrl (sampleFields ''N'') # rest"
    unfolding t w f x by auto
  from CreatePaste_expiration [OF g [of "''10M''"] n refl, where w = emptyWorld]
  have b: "\<exists>rest. sent (snd (snd (CreatePaste ?e (testClient []) emptyWorld (sampleRequest ''10M''))))
             = postRequest PostApiUrl (sampleFields ''10M'') # rest"
    unfolding t w f x by auto
  show ?thesis
    using a b sample_CreatePaste [of "[]"] sample_CreatePaste [of "''10M''"] sampleFields_body
    by (simp add: postRequest_def)
qed

section \<open>Listing pastes\<close>

text \<open>
  Claim C6. On a client with a session key, when the request succeeds with a body and the
  decoder finds N paste elements in the body wrapped in \<^verbatim>\<open><pastes>\<close>, \<^verbatim>\<open>ListUserPastes\<close>
  returns N pastes, the conversions of the N elements in order, each owned by the user
  name of the client.
\<close>

theorem ListUserPastes_records:
  assumes "length (sessionKey c) > 0"
      and "doPastebinRequest e c w PostApiUrl
             [(''api_option'', [''list'']),
              (''api_user_key'', [sessionKey c]),
              (''api_dev_key'', [developerApiKey c]),
              (''api_results_limit'', [''100''])] True = (Inr body, c', w')"
      and "xml_Unmarshal e (''<pastes>'' @ body @ ''</pastes>'') = Inr xmlPastes"
  shows "\<exists>pastes. ListUserPastes e c w = (Inr pastes, c', w')
           \<and> pastes = map (\<lambda>p. xmlPaste_ToPaste p (username c)) xmlPastes
           \<and> length pastes = length xmlPastes
           \<and> (\<forall>p \<in> set pastes. PasteUser p = username c)
           \<and> (\<exists>r. RoundTrip e (butlast (sent w')) (last (sent w')) = Inr r
                  \<and> StatusCode r = 200 \<and> Body r = Inr body)"
proof -
  have "same_credentials c c'"
    using after_request [OF assms(2), of c'] by simp
  then have u: "username c' = username c"
    by (simp add: same_credentials_def)
  have "ListUserPastes e c w
          = (Inr (map (\<lambda>p. xmlPaste_ToPaste p (username c)) xmlPastes), c', w')"
    using assms u by (simp add: ListUserPastes_def)
  with request_success [OF assms(2)] show ?thesis
    by (auto simp: xmlPaste_ToPaste_def)
qed

theorem ListUserPastes_records_witness:
  "ListUserPastes (testEnv [reply 200 ''200 OK'' sampleXml]) (testClient ''key'') emptyWorld
     = (Inr [xmlPaste_ToPaste (samplePaste ''0b42rwhf'') ''alice'',
             xmlPaste_ToPaste (samplePaste ''0C343n0d'') ''alice''],
        testClient ''key'',
        \<lparr>sent = [postRequest PostApiUrl
                   [(''api_option'', [''list'']), (''api_user_key'', [''key'']),
                    (''api_dev_key'', [''devkey'']), (''api_results_limit'', [''100''])]],
          stdout = []\<rparr>)
   \<and> PasteUser (xmlPaste_ToPaste (samplePaste ''0b42rwhf'') ''alice'') = ''alice''
   \<and> PasteUser (xmlPaste_ToPaste (samplePaste ''0C343n0d'') ''alice'') = ''alice''
   \<and> PasteKey (xmlPaste_ToPaste (samplePaste ''0C343n0d'') ''alice'') = ''0C343n0d''"
proof -
  let ?e = "testEnv [reply 200 ''200 OK'' sampleXml]"
  let ?c = "testClient ''key''"
  let ?w = "\<lparr>sent = [postRequest PostApiUrl
                   [(''api_option'', [''list'']), (''api_user_key'', [''key'']),
                    (''api_dev_key'', [''devkey'']), (''api_results_limit'', [''100''])]],
          stdout = []\<rparr>"
  have k: "length (sessionKey ?c) > 0"
    by (simp add: testClient_def)
  have d: "doPastebinRequest ?e ?c emptyWorld PostApiUrl
             [(''api_option'', [''list'']),
              (''api_user_key'', [sessionKey ?c]),
              (''api_dev_key'', [developerApiKey ?c]),
              (''api_results_limit'', [''100''])] True = (Inr sampleXml, ?c, ?w)"
    by (simp add: doPastebinRequest_retry testEnv_def scripted_def reply_def emptyWorld_def
          testClient_def sampleXml_def InvalidSessionKey_def HasPrefix_def)
  have x: "xml_Unmarshal ?e (''<pastes>'' @ sampleXml @ ''</pastes>'')
             = Inr [samplePaste ''0b42rwhf'', samplePaste ''0C343n0d'']"
    by (simp add: testEnv_def)
  have u: "username ?c = ''alice''"
    by (simp add: testClient_def)
  from ListUserPastes_records [OF k d x] show ?thesis
    unfolding u by (auto simp: xmlPaste_ToPaste_def samplePaste_def)
qed

text \<open>
  Claim C4. On a client with a session key, when the request succeeds with a body (the
  body of the last response, answered 200), \<^verbatim>\<open>GetRecentPastes\<close> decodes the wrapped body:
  it returns the error of the decoder if there is one, and otherwise the body itself, as
  received, whatever records the decoder found.
\<close>

theorem GetRecentPastes_raw:
  assumes "length (sessionKey c) > 0"
      and "doPastebinRequest e c w ScrapingApiUrl
             [(''api_option'', [''show_paste'']),
              (''api_user_key'', [sessionKey c]),
              (''api_dev_key'', [developerApiKey c])] True = (Inr body, c', w')"
  shows "GetRecentPastes e c w
           = (case json_Unmarshal e
                     ([CHR ''{'', CHR 0x22] @ ''pastes'' @ [CHR 0x22, CHR '':''] @ body @ ''}'') of
                Inl err \<Rightarrow> (Inl err, c', w')
              | Inr jsonPastes \<Rightarrow> (Inr body, c', w'))
       \<and> (\<exists>r. RoundTrip e (butlast (sent w')) (last (sent w')) = Inr r
              \<and> StatusCode r = 200 \<and> Body r = Inr body)"
proof -
  have "GetRecentPastes e c w
           = (case json_Unmarshal e
                     ([CHR ''{'', CHR 0x22] @ ''pastes'' @ [CHR 0x22, CHR '':''] @ body @ ''}'') of
                Inl err \<Rightarrow> (Inl err, c', w')
              | Inr jsonPastes \<Rightarrow> (Inr body, c', w'))"
    using assms by (simp add: GetRecentPastes_def Let_def split: sum.splits)
  with request_success [OF assms(2)] show ?thesis
    by blast
qed

theorem GetRecentPastes_raw_witness:
  "GetRecentPastes (testEnv [reply 200 ''200 OK'' sampleJson]) (testClient ''key'') emptyWorld
     = (Inr sampleJson, testClient ''key'',
        \<lparr>sent = [postRequest ScrapingApiUrl
                   [(''api_option'', [''show_paste'']), (''api_user_key'', [''key'']),
                    (''api_dev_key'', [''devkey''])]],
          stdout = []\<rparr>)
   \<and> json_Unmarshal (testEnv [reply 200 ''200 OK'' sampleJson])
         (''{'' @ quoted ''pastes'' @ '':'' @ sampleJson @ ''}'') = Inr [sampleScrape]
   \<and> GetRecentPastes (testEnv [reply 200 ''200 OK'' ''not json'']) (testClient ''key'') emptyWorld
     = (Inl (LibError ''invalid character''), testClient ''key'',
        \<lparr>sent = [postRequest ScrapingApiUrl
                   [(''api_option'', [''show_paste'']), (''api_user_key'', [''key'']),
                    (''api_dev_key'', [''devkey''])]],
          stdout = []\<rparr>)"
proof -
  let ?c = "testClient ''key''"
  let ?w = "\<lparr>sent = [postRequest ScrapingApiUrl
                   [(''api_option'', [''show_paste'']), (''api_user_key'', [''key'']),
                    (''api_dev_key'', [''devkey''])]],
          stdout = []\<rparr>"
  have k: "length (sessionKey ?c) > 0"
    by (simp add: testClient_def)
  have d: "doPastebinRequest (testEnv [reply 200 ''200 OK'' b]) ?c emptyWorld ScrapingApiUrl
             [(''api_option'', [''show_paste'']),
              (''api_user_key'', [sessionKey ?c]),
              (''api_dev_key'', [developerApiKey ?c])] True = (Inr b, ?c, ?w)"
    if "b \<noteq> InvalidSessionKey" "\<not> HasPrefix b ''Bad API request''" for b
    using that
    by (simp add: doPastebinRequest_retry testEnv_def scripted_def reply_def emptyWorld_def
          testClient_def)
  have b1: "sampleJson \<noteq> InvalidSessionKey" "\<not> HasPrefix sampleJson ''Bad API request''"
    by (simp_all add: sampleJson_def InvalidSessionKey_def HasPrefix_def)
  have b2: "''not json'' \<noteq> InvalidSessionKey" "\<not> HasPrefix ''not json'' ''Bad API request''"
    by (simp_all add: InvalidSessionKey_def HasPrefix_def)
  have j1: "json_Unmarshal (testEnv rs)
              ([CHR ''{'', CHR 0x22] @ ''pastes'' @ [CHR 0x22, CHR '':''] @ sampleJson @ ''}'')
              = Inr [sampleScrape]" for rs
    by (simp add: testEnv_def quoted_def)
  have j1': "json_Unmarshal (testEnv rs) (''{'' @ quoted ''pastes'' @ '':'' @ sampleJson @ ''}'')
              = Inr [sampleScrape]" for rs
    by (simp add: testEnv_def quoted_def)
  have j2: "json_Unmarshal (testEnv rs)
              ([CHR ''{'', CHR 0x22] @ ''pastes'' @ [CHR 0x22, CHR '':''] @ ''not json'' @ ''}'')
              = Inl (LibError ''invalid character'')" for rs
    by (simp add: testEnv_def quoted_def sampleJson_def)
  from GetRecentPastes_raw [OF k d [OF b1]] GetRecentPastes_raw [OF k d [OF b2]] j1 j1' j2
  show ?thesis
    by simp
qed

end
